theory Spec2Isabelle
  imports Complex_Main "HOL-Library.Word" "HOL-Library.Signed_Division"
begin

section \<open>The Metainference bias (src/bias/Metainference.cpp)\<close>

text \<open>
  A shallow embedding of the class \<open>Metainference\<close>. The object is a record with one
  field per data member; every member function takes the object and returns the updated
  one. The conventions of the embedding:
  \<^item> \<open>double\<close> is embedded as \<open>real\<close>: \<open>std::log\<close> is \<open>ln\<close>, \<open>exp\<close> and \<open>sqrt\<close> are
    the functions of the same name. Rounding and the IEEE values infinity and NaN are
    outside the embedding, with one exception: the quotient by \<open>kbt_\<close> in the
    Metropolis test, which decides whether a move is accepted, keeps the values a
    division by zero has.
  \<^item> \<open>unsigned\<close> counters are \<open>32 word\<close> (they wrap), \<open>long int\<close> is \<open>int\<close>, sizes of
    vectors are \<open>nat\<close>.
  \<^item> \<open>rand()\<close> reads the next element of a stream fixed by \<open>srand\<close>; the stream and
    the read position are part of the object.
  \<^item> \<open>error(...)\<close> of the host framework is fatal: the constructor returns \<open>Inl\<close>.
    \<open>step % MCstride_\<close> is the remainder of the signed division of \<open>long int\<close>, which
    truncates (\<open>smod\<close>); with a zero stride it has no defined result, and \<open>calculate\<close>
    returns \<open>Inl\<close> there.
  \<^item> the collectives \<open>Sum\<close> and \<open>Bcast\<close> are seen from one process: what the other
    participants contribute, or what the root sends, is an input of the step. In the
    constructor every rank contributes a value that depends on its rank alone, so the
    sum is taken over the ranks.
\<close>

subsection \<open>Data members\<close>

type_synonym unsigned = "32 word"

datatype noise = GAUSS | MGAUSS | LTAIL

datatype error =
    ParametersSize
  | ParargWithParameters
  | ParargSize
  | ParargDerivatives
  | ParametersCount
  | UnknownNoiseType
  | MoreThanOneSigma
  | Sigma0Size
  | ModuloByZero

record metainference =
  parameters :: "real list"
  noise_type :: noise
  doscale :: bool
  scale :: real
  scale_min :: real
  scale_max :: real
  Dscale :: real
  sigma :: "real list"
  sigma_min :: real
  sigma_max :: real
  Dsigma :: real
  sigma_mean :: real
  kbt :: real
  ndata :: nat
  old_energy :: real
  MCsteps :: unsigned
  MCstride :: unsigned
  MCaccept :: unsigned
  MCfirst :: int
  valueBias :: real
  valueScale :: real
  valueAccept :: real
  valueSigma :: "real list"
  nrep :: unsigned
  replica :: unsigned
  outputForces :: "nat \<Rightarrow> real"
  rand_stream :: "nat \<Rightarrow> nat"
  rand_pos :: nat

text \<open>The two constants the constructor's initialiser list fixes.\<close>

definition sqrt2pi :: real where
  "sqrt2pi = 2.506628274631001"

definition sqrt2_div_pi :: real where
  "sqrt2_div_pi = 0.45015815807855"

subsection \<open>The host: what the framework and the platform provide\<close>

text \<open>
  \<open>host\<close> holds what is fixed for the run: the two communicators' sizes and ranks,
  the temperature the MD code passes, the stride of the action, the clock at
  construction, \<open>RAND_MAX\<close> and the stream \<open>rand()\<close> yields after \<open>srand(seed)\<close>.
\<close>

record host =
  comm_Get_rank :: nat
  comm_Get_size :: nat
  multi_sim_comm_Get_rank :: unsigned
  multi_sim_comm_Get_size :: unsigned
  getKBoltzmann :: real
  getKbT :: real
  getStride :: unsigned
  time_NULL :: unsigned
  RAND_MAX :: nat
  rand_after_srand :: "unsigned \<Rightarrow> nat \<Rightarrow> nat"

text \<open>
  \<open>step_input\<close> holds what one call of \<open>calculate\<close> reads from outside the object:
  the step, the exchange flag, the arguments, what the other replicas and the other
  ranks of this replica add in each \<open>Sum\<close>, and what the root sends in the two
  \<open>Bcast\<close> of inner Monte Carlo step \<open>i\<close>.
\<close>

record step_input =
  getStep :: int
  getExchangeStep :: bool
  arguments :: "real list"
  multi_sim_others_inv_s2 :: "real list list"
  comm_others_inv_s2 :: "real list list"
  multi_sim_others_f :: "real list list"
  multi_sim_others_ene :: "real list"
  comm_others_f :: "real list list"
  comm_others_ene :: "real list"
  root_new_scale :: "nat \<Rightarrow> real"
  root_scale :: "nat \<Rightarrow> real"

subsection \<open>Collectives, seen from one process\<close>

definition Sum_vec :: "real list list \<Rightarrow> real list \<Rightarrow> real list" where
  "Sum_vec others buf = foldl (\<lambda>acc other. map2 (+) acc other) buf others"

definition Sum_val :: "real list \<Rightarrow> real \<Rightarrow> real" where
  "Sum_val others x = foldl (+) x others"

definition Bcast :: "bool \<Rightarrow> real \<Rightarrow> real \<Rightarrow> real" where
  "Bcast is_root received x = (if is_root then x else received)"

text \<open>\<open>comm.Sum\<close> of a value every rank computes from its own rank (constructor).\<close>

definition comm_Sum :: "host \<Rightarrow> (nat \<Rightarrow> unsigned) \<Rightarrow> unsigned" where
  "comm_Sum h local = foldl (+) 0 (map local [0..<comm_Get_size h])"

subsection \<open>rand() and setOutputForce\<close>

definition rand :: "metainference \<Rightarrow> nat \<times> metainference" where
  "rand m = (rand_stream m (rand_pos m), m\<lparr>rand_pos := Suc (rand_pos m)\<rparr>)"

definition setOutputForce :: "nat \<Rightarrow> real \<Rightarrow> metainference \<Rightarrow> metainference" where
  "setOutputForce i f m = m\<lparr>outputForces := (outputForces m)(i := f)\<rparr>"

subsection \<open>getEnergySPE and getEnergyGJE\<close>

definition getEnergySPE :: "metainference \<Rightarrow> real list \<Rightarrow> real \<Rightarrow> real \<Rightarrow> real" where
  "getEnergySPE m args sigma0 scale0 =
    (let smean2 = sigma_mean m * sigma_mean m;
         s = sqrt (sigma0 * sigma0 + smean2);
         ene = fold (\<lambda>i ene.
                 let dev = scale0 * args ! i - parameters m ! i;
                     a2 = 0.5 * dev * dev + s * s
                 in ene + ln (2.0 * a2 / (1.0 - exp (- a2 / smean2))))
               [0..<length args] 0;
         ene' = ene + (ln s - real (ndata m) * ln (sqrt2_div_pi * s))
     in kbt m * ene')"

definition getEnergyGJE :: "metainference \<Rightarrow> real list \<Rightarrow> real list \<Rightarrow> real \<Rightarrow> real" where
  "getEnergyGJE m args sigma0 scale0 =
    (let smean2 = sigma_mean m * sigma_mean m;
         ss0 = sigma0 ! 0 * sigma0 ! 0 + smean2;
         (ene, ss) = fold (\<lambda>i (ene, ss).
                 let ss' = (if noise_type m = MGAUSS then sigma0 ! i * sigma0 ! i + smean2 else ss);
                     dev = scale0 * args ! i - parameters m ! i
                 in (ene + (0.5 * dev * dev / ss' + ln (ss' * sqrt2pi)), ss'))
               [0..<length args] (0, ss0)
     in kbt m * ene)"

subsection \<open>The constructor\<close>

text \<open>
  What the parser of the host delivers for the keywords of the action. \<open>ARG\<close> is
  \<open>getNumberOfArguments()\<close>; an entry of \<open>PARARG\<close> is a value with its
  \<open>hasDerivatives()\<close> flag; an optional keyword that is absent is \<open>None\<close>.
\<close>

record options =
  ARG :: nat
  PARAMETERS :: "real list"
  PARARG :: "(real \<times> bool) list"
  NOISETYPE :: string
  SCALEDATA :: bool
  SCALE0 :: real
  SCALE_MIN :: real
  SCALE_MAX :: real
  DSCALE :: real
  SIGMA0 :: "real list"
  SIGMA_MIN :: real
  SIGMA_MAX :: real
  DSIGMA :: real
  SIGMA_MEAN :: real
  TEMP :: "real option"
  MC_STEPS :: "unsigned option"
  MC_STRIDE :: "unsigned option"

text \<open>
  The constructor assigns the members one after the other; it is embedded phase by
  phase, in the order of the source. A scalar member it does not assign (\<open>scale_min_\<close>,
  \<open>scale_max_\<close>, \<open>Dscale_\<close> and \<open>valueScale\<close> without \<open>SCALEDATA\<close>) keeps what the
  storage held: the argument \<open>raw\<close>. The output forces belong to the base class and are
  taken from \<open>raw\<close> as well. A component added by \<open>addComponent\<close> starts at 0. A phase
  that calls \<open>error\<close> ends the construction.
\<close>

definition and_then :: "error + 'a \<Rightarrow> ('a \<Rightarrow> error + 'b) \<Rightarrow> error + 'b" where
  "and_then r f = (case r of Inl e \<Rightarrow> Inl e | Inr x \<Rightarrow> f x)"

text \<open>Lines 125-136: the initialiser list; the vectors start empty.\<close>

definition initialiser_list :: "options \<Rightarrow> metainference \<Rightarrow> metainference" where
  "initialiser_list ao raw =
     raw\<lparr>parameters := [], doscale := False, sigma := [], ndata := ARG ao,
         old_energy := 0, MCsteps := 1, MCstride := 1, MCaccept := 0, MCfirst := - 1,
         valueSigma := []\<rparr>"

text \<open>Lines 137-154: \<open>PARAMETERS\<close> and \<open>PARARG\<close>.\<close>

definition read_parameters :: "options \<Rightarrow> metainference \<Rightarrow> error + metainference" where
  "read_parameters ao m =
    (let narg = ARG ao;
         m0 = m\<lparr>parameters := PARAMETERS ao\<rparr>;
         arg2 = PARARG ao
     in
     if length (parameters m0) \<noteq> narg \<and> parameters m0 \<noteq> [] then Inl ParametersSize
     else if arg2 \<noteq> [] \<and> length (parameters m0) > 0 then Inl ParargWithParameters
     else if arg2 \<noteq> [] \<and> length arg2 \<noteq> narg then Inl ParargSize
     else if arg2 \<noteq> [] \<and> list_ex snd arg2 then Inl ParargDerivatives
     else
     let m1 = m0\<lparr>parameters := parameters m0 @ map fst arg2\<rparr> in
     if length (parameters m1) \<noteq> narg then Inl ParametersCount
     else Inr m1)"

text \<open>Lines 156-161: \<open>NOISETYPE\<close>.\<close>

definition read_noise :: "options \<Rightarrow> metainference \<Rightarrow> error + metainference" where
  "read_noise ao m =
    (let stringa_noise = NOISETYPE ao in
     if stringa_noise = ''GAUSS'' then Inr (m\<lparr>noise_type := GAUSS\<rparr>)
     else if stringa_noise = ''MGAUSS'' then Inr (m\<lparr>noise_type := MGAUSS\<rparr>)
     else if stringa_noise = ''LTAIL'' then Inr (m\<lparr>noise_type := LTAIL\<rparr>)
     else Inl UnknownNoiseType)"

text \<open>Lines 163-171: \<open>SCALEDATA\<close> and the keywords of the scale.\<close>

definition read_scale :: "options \<Rightarrow> metainference \<Rightarrow> metainference" where
  "read_scale ao m =
    (let m1 = m\<lparr>doscale := SCALEDATA ao\<rparr> in
     if doscale m1
     then m1\<lparr>scale := SCALE0 ao, scale_min := SCALE_MIN ao,
             scale_max := SCALE_MAX ao, Dscale := DSCALE ao\<rparr>
     else m1\<lparr>scale := 1.0\<rparr>)"

text \<open>Lines 173-200: \<open>SIGMA0\<close>, the other keywords, the temperature, the sigma vector.\<close>

definition read_sigma :: "host \<Rightarrow> options \<Rightarrow> metainference \<Rightarrow> error + metainference" where
  "read_sigma h ao m =
    (let narg = ARG ao;
         readsigma = SIGMA0 ao
     in
     if noise_type m \<noteq> MGAUSS \<and> length readsigma > 1 then Inl MoreThanOneSigma
     else
     let m1 = m\<lparr>sigma_min := SIGMA_MIN ao, sigma_max := SIGMA_MAX ao, Dsigma := DSIGMA ao,
                MCsteps := (case MC_STEPS ao of None \<Rightarrow> MCsteps m | Some n \<Rightarrow> n),
                MCstride := (case MC_STRIDE ao of None \<Rightarrow> MCstride m | Some n \<Rightarrow> n),
                sigma_mean := SIGMA_MEAN ao\<rparr>;
         temp = (case TEMP ao of None \<Rightarrow> 0.0 | Some t \<Rightarrow> t);
         m2 = m1\<lparr>kbt := (if temp > 0.0 then getKBoltzmann h * temp else getKbT h)\<rparr>
     in
     if length readsigma = narg then Inr (m2\<lparr>sigma := readsigma\<rparr>)
     else if length readsigma = 1 then
       (if noise_type m2 = MGAUSS then Inr (m2\<lparr>sigma := replicate narg (readsigma ! 0)\<rparr>)
        else Inr (m2\<lparr>sigma := replicate 1 (readsigma ! 0)\<rparr>))
     else Inl Sigma0Size)"

text \<open>Lines 202-217: the replicas, \<open>sigma_mean_\<close> and the stride.\<close>

definition count_replicas :: "host \<Rightarrow> metainference \<Rightarrow> metainference" where
  "count_replicas h m =
    (let m1 = m\<lparr>nrep := comm_Sum h (\<lambda>rank. if rank = 0 then multi_sim_comm_Get_size h else 0),
                replica := comm_Sum h (\<lambda>rank. if rank = 0 then multi_sim_comm_Get_rank h else 0)\<rparr>;
         m2 = m1\<lparr>sigma_mean := sigma_mean m1 / sqrt (real (unat (nrep m1)))\<rparr>
     in m2\<lparr>MCstride := MCstride m2 * getStride h\<rparr>)"

text \<open>Lines 255-276: the components.\<close>

definition add_components :: "metainference \<Rightarrow> metainference" where
  "add_components m =
    (let m1 = m\<lparr>valueBias := 0\<rparr>;
         m2 = (if doscale m1 then m1\<lparr>valueScale := 0\<rparr> else m1);
         m3 = m2\<lparr>valueAccept := 0\<rparr>
     in if noise_type m3 = MGAUSS
        then m3\<lparr>valueSigma := replicate (length (sigma m3)) 0\<rparr>
        else m3\<lparr>valueSigma := [0]\<rparr>)"

text \<open>Lines 277-282: the seed.\<close>

definition seed_rand :: "host \<Rightarrow> metainference \<Rightarrow> metainference" where
  "seed_rand h m =
    (let iseed = comm_Sum h (\<lambda>rank. if rank = 0 then time_NULL h + replica m else 0)
     in m\<lparr>rand_stream := rand_after_srand h iseed, rand_pos := 0\<rparr>)"

definition Metainference :: "host \<Rightarrow> options \<Rightarrow> metainference \<Rightarrow> error + metainference" where
  "Metainference h ao raw =
     and_then (read_parameters ao (initialiser_list ao raw)) (\<lambda>m1.
     and_then (read_noise ao m1) (\<lambda>m2.
     and_then (read_sigma h ao (read_scale ao m2)) (\<lambda>m3.
     Inr (seed_rand h (add_components (count_replicas h m3))))))"

subsection \<open>doMonteCarlo\<close>

text \<open>Lines 317-328: the old energy, computed while \<open>MCfirst_\<close> is still -1.\<close>

definition seed_old_energy :: "real list \<Rightarrow> metainference \<Rightarrow> metainference" where
  "seed_old_energy args m =
    (if MCfirst m = - 1 then
       (case noise_type m of
          GAUSS \<Rightarrow> m\<lparr>old_energy := getEnergyGJE m args (sigma m) (scale m)\<rparr>
        | MGAUSS \<Rightarrow> m\<lparr>old_energy := getEnergyGJE m args (sigma m) (scale m)\<rparr>
        | LTAIL \<Rightarrow> m\<lparr>old_energy := getEnergySPE m args (sigma m ! 0) (scale m)\<rparr>)
     else m)"

text \<open>Lines 336-341: one draw, the random-walk move of the scale and its reflection.\<close>

definition move_scale :: "host \<Rightarrow> metainference \<Rightarrow> real \<times> metainference" where
  "move_scale h m =
    (let new_scale = scale m;
         (rnd, m1) = rand m;
         r1 = real rnd / real (RAND_MAX h);
         ds1 = - Dscale m1 + r1 * 2.0 * Dscale m1;
         new_scale1 = new_scale + ds1;
         new_scale2 = (if new_scale1 > scale_max m1 then 2.0 * scale_max m1 - new_scale1
                       else new_scale1);
         new_scale3 = (if new_scale2 < scale_min m1 then 2.0 * scale_min m1 - new_scale2
                       else new_scale2)
     in (new_scale3, m1))"

text \<open>Lines 333-345: the proposal of the scale, with its two broadcasts.\<close>

definition propose_scale :: "host \<Rightarrow> step_input \<Rightarrow> nat \<Rightarrow> metainference \<Rightarrow> real \<times> metainference" where
  "propose_scale h inp i m =
    (if doscale m then
       let (new_scale3, m1) = move_scale h m;
           new_scale4 = (if comm_Get_rank h = 0
                         then Bcast (multi_sim_comm_Get_rank h = 0) (root_new_scale inp i) new_scale3
                         else new_scale3);
           new_scale5 = Bcast (comm_Get_rank h = 0) (root_new_scale inp i) new_scale4
       in (new_scale5, m1)
     else (scale m, m))"

text \<open>Lines 350-355: one draw, the move of one sigma and its reflection.\<close>

definition move_sigma :: "host \<Rightarrow> real \<Rightarrow> metainference \<Rightarrow> real \<times> metainference" where
  "move_sigma h sigma_j m =
    (let (rnd, m1) = rand m;
         r2 = real rnd / real (RAND_MAX h);
         ds2 = - Dsigma m1 + r2 * 2.0 * Dsigma m1;
         new_sigma_j = sigma_j + ds2;
         new_sigma_j1 = (if new_sigma_j > sigma_max m1 then 2.0 * sigma_max m1 - new_sigma_j
                         else new_sigma_j);
         new_sigma_j2 = (if new_sigma_j1 < sigma_min m1 then 2.0 * sigma_min m1 - new_sigma_j1
                         else new_sigma_j1)
     in (new_sigma_j2, m1))"

text \<open>Lines 347-356: the move of every sigma, in the order of the vector.\<close>

fun propose_sigma :: "host \<Rightarrow> real list \<Rightarrow> metainference \<Rightarrow> real list \<times> metainference" where
  "propose_sigma h [] m = ([], m)"
| "propose_sigma h (sigma_j # rest) m =
    (let (new_sigma_j, m1) = move_sigma h sigma_j m;
         (new_rest, m2) = propose_sigma h rest m1
     in (new_sigma_j # new_rest, m2))"

text \<open>Lines 358-368: the energy of the proposal.\<close>

definition new_energy_of :: "metainference \<Rightarrow> real list \<Rightarrow> real list \<Rightarrow> real \<Rightarrow> real" where
  "new_energy_of m args new_sigma new_scale =
    (case noise_type m of
       GAUSS \<Rightarrow> getEnergyGJE m args new_sigma new_scale
     | MGAUSS \<Rightarrow> getEnergyGJE m args new_sigma new_scale
     | LTAIL \<Rightarrow> getEnergySPE m args (new_sigma ! 0) new_scale)"

text \<open>Lines 370-387: accept or reject.\<close>

definition accept_move :: "real \<Rightarrow> real \<Rightarrow> real list \<Rightarrow> metainference \<Rightarrow> metainference" where
  "accept_move new_energy new_scale new_sigma m =
     m\<lparr>old_energy := new_energy, scale := new_scale, sigma := new_sigma,
       MCaccept := MCaccept m + 1\<rparr>"

text \<open>
  The quotient of line 371. Its divisor \<open>kbt_\<close> is 0 when no temperature is given and the
  MD code passes none, and the constructor accepts that; so the quotient is embedded with
  the values a division of doubles by \<open>+0.0\<close> has: an infinity with the sign of the
  dividend, and no number when the dividend is 0 as well. \<open>le_zero\<close> is the test
  \<open>delta <= 0.0\<close> and \<open>less_exp_minus s\<close> the test \<open>s < exp(-delta)\<close> on such a value:
  every comparison with what is not a number is false, and \<open>exp\<close> of minus infinity is 0.
\<close>

datatype quotient = Finite real | PlusInfinity | MinusInfinity | NotANumber

definition divide_double :: "real \<Rightarrow> real \<Rightarrow> quotient" where
  "divide_double x y =
    (if y \<noteq> 0 then Finite (x / y)
     else if 0 < x then PlusInfinity
     else if x < 0 then MinusInfinity
     else NotANumber)"

definition le_zero :: "quotient \<Rightarrow> bool" where
  "le_zero delta =
    (case delta of
       Finite d \<Rightarrow> d \<le> 0.0
     | PlusInfinity \<Rightarrow> False
     | MinusInfinity \<Rightarrow> True
     | NotANumber \<Rightarrow> False)"

definition less_exp_minus :: "real \<Rightarrow> quotient \<Rightarrow> bool" where
  "less_exp_minus s delta =
    (case delta of
       Finite d \<Rightarrow> s < exp (- d)
     | PlusInfinity \<Rightarrow> s < 0
     | MinusInfinity \<Rightarrow> True
     | NotANumber \<Rightarrow> False)"

definition accept_or_reject ::
  "host \<Rightarrow> real \<Rightarrow> real \<Rightarrow> real list \<Rightarrow> metainference \<Rightarrow> metainference" where
  "accept_or_reject h new_energy new_scale new_sigma m =
    (let delta = divide_double (new_energy - old_energy m) (kbt m) in
     if le_zero delta then accept_move new_energy new_scale new_sigma m
     else
       let (rnd, m1) = rand m;
           s = real rnd / real (RAND_MAX h)
       in if less_exp_minus s delta then accept_move new_energy new_scale new_sigma m1 else m1)"

text \<open>Lines 389-393: the accepted scale, broadcast again.\<close>

definition bcast_scale :: "host \<Rightarrow> step_input \<Rightarrow> nat \<Rightarrow> metainference \<Rightarrow> metainference" where
  "bcast_scale h inp i m =
    (if doscale m then
       let scale1 = (if comm_Get_rank h = 0
                     then Bcast (multi_sim_comm_Get_rank h = 0) (root_scale inp i) (scale m)
                     else scale m);
           scale2 = Bcast (comm_Get_rank h = 0) (root_scale inp i) scale1
       in m\<lparr>scale := scale2\<rparr>
     else m)"

text \<open>The body of the loop on the Monte Carlo steps, lines 331-394.\<close>

definition mc_step :: "host \<Rightarrow> step_input \<Rightarrow> nat \<Rightarrow> metainference \<Rightarrow> metainference" where
  "mc_step h inp i m =
    (let (new_scale, m1) = propose_scale h inp i m;
         (new_sigma, m2) = propose_sigma h (sigma m1) m1;
         new_energy = new_energy_of m2 (arguments inp) new_sigma new_scale;
         m3 = accept_or_reject h new_energy new_scale new_sigma m2
     in bcast_scale h inp i m3)"

definition doMonteCarlo :: "host \<Rightarrow> step_input \<Rightarrow> metainference \<Rightarrow> metainference" where
  "doMonteCarlo h inp m =
    (let m1 = seed_old_energy (arguments inp) m;
         m2 = fold (mc_step h inp) [0..<unat (MCsteps m1)] m1;
         m3 = (if doscale m2 then m2\<lparr>valueScale := scale m2\<rparr> else m2)
     in fold (\<lambda>i m'. m'\<lparr>valueSigma := (valueSigma m')[i := sigma m' ! i]\<rparr>)
             [0..<length (sigma m3)] m3)"

subsection \<open>getEnergyForceSPE and getEnergyForceGJE\<close>

definition getEnergyForceSPE :: "host \<Rightarrow> step_input \<Rightarrow> metainference \<Rightarrow> real \<times> metainference" where
  "getEnergyForceSPE h inp m =
    (let args = arguments inp;
         narg = length args;
         smean2 = sigma_mean m * sigma_mean m;
         s = sqrt (sigma m ! 0 * sigma m ! 0 + smean2);
         f0 = replicate narg 0;
         (f2, ene2) =
           (if comm_Get_rank h = 0 then
              let (f1, ene1) = fold (\<lambda>i (f, ene).
                      let dev = scale m * args ! i - parameters m ! i;
                          a2 = 0.5 * dev * dev + s * s;
                          t = exp (- a2 / smean2);
                          dt = 1 / t;
                          it = 1 / (1 - t);
                          dit = 1 / (1 - dt)
                      in (f[i := - scale m * dev * (dit / smean2 + 1 / a2)],
                          ene + ln (2 * a2 * it)))
                    [0..<narg] (f0, 0);
                  f1' = Sum_vec (multi_sim_others_f inp) f1;
                  ene1' = Sum_val (multi_sim_others_ene inp) ene1;
                  ene1'' = ene1' + (ln s - real (ndata m) * ln (sqrt2_div_pi * s))
              in (f1', ene1'')
            else (f0, 0));
         f3 = Sum_vec (comm_others_f inp) f2;
         ene3 = Sum_val (comm_others_ene inp) ene2;
         m' = fold (\<lambda>i m'. setOutputForce i (kbt m' * f3 ! i) m') [0..<narg] m
     in (ene3, m'))"

definition getEnergyForceGJE :: "host \<Rightarrow> step_input \<Rightarrow> metainference \<Rightarrow> real \<times> metainference" where
  "getEnergyForceGJE h inp m =
    (let args = arguments inp;
         ssize = length (sigma m);
         smean2 = sigma_mean m * sigma_mean m;
         ss = map (\<lambda>i. sigma m ! i * sigma m ! i + smean2) [0..<ssize];
         inv_s2 = map (\<lambda>i. if comm_Get_rank h = 0 then 1.0 / ss ! i else 0) [0..<ssize];
         inv_s2' = (if comm_Get_rank h = 0 then Sum_vec (multi_sim_others_inv_s2 inp) inv_s2
                    else inv_s2);
         inv_s2'' = Sum_vec (comm_others_inv_s2 inp) inv_s2';
         narg = length args
     in fold (\<lambda>i (ene, m').
               let dev = scale m' * args ! i - parameters m' ! i;
                   sel_sigma = (if noise_type m' = MGAUSS then i else 0)
               in (ene + (0.5 * dev * dev * inv_s2'' ! sel_sigma + ln (ss ! sel_sigma * sqrt2pi)),
                   setOutputForce i (- kbt m' * dev * scale m' * inv_s2'' ! sel_sigma) m'))
             [0..<narg] (0, m))"

subsection \<open>calculate\<close>

definition calculate :: "host \<Rightarrow> step_input \<Rightarrow> metainference \<Rightarrow> error + metainference" where
  "calculate h inp m =
    (let step = getStep inp in
     if unat (MCstride m) = 0 then Inl ModuloByZero
     else
     let m1 = (if step smod int (unat (MCstride m)) = 0 \<and> \<not> getExchangeStep inp
               then doMonteCarlo h inp m else m);
         m2 = (if MCfirst m1 = - 1 then m1\<lparr>MCfirst := step\<rparr> else m1);
         MCtrials = real_of_int \<lfloor>real_of_int (step - MCfirst m2) / real (unat (MCstride m2))\<rfloor> + 1.0;
         accept = real (unat (MCaccept m2)) / real (unat (MCsteps m2)) / MCtrials;
         m3 = m2\<lparr>valueAccept := accept\<rparr>;
         (ene, m4) = (case noise_type m3 of
                        GAUSS \<Rightarrow> getEnergyForceGJE h inp m3
                      | MGAUSS \<Rightarrow> getEnergyForceGJE h inp m3
                      | LTAIL \<Rightarrow> getEnergyForceSPE h inp m3)
     in Inr (m4\<lparr>valueBias := kbt m4 * ene\<rparr>))"

section \<open>Predicates, phases and example objects\<close>

subsection \<open>Predicates and phases used to state the properties\<close>

text \<open>
  The members that only the constructor assigns. \<open>same_setup m m'\<close> says that the two
  objects agree on all of them.
\<close>

definition same_setup :: "metainference \<Rightarrow> metainference \<Rightarrow> bool" where
  "same_setup m m' \<longleftrightarrow>
     parameters m' = parameters m \<and> noise_type m' = noise_type m \<and> doscale m' = doscale m
     \<and> scale_min m' = scale_min m \<and> scale_max m' = scale_max m \<and> Dscale m' = Dscale m
     \<and> sigma_min m' = sigma_min m \<and> sigma_max m' = sigma_max m \<and> Dsigma m' = Dsigma m
     \<and> sigma_mean m' = sigma_mean m \<and> kbt m' = kbt m \<and> ndata m' = ndata m
     \<and> MCsteps m' = MCsteps m \<and> MCstride m' = MCstride m
     \<and> nrep m' = nrep m \<and> replica m' = replica m \<and> rand_stream m' = rand_stream m"


text \<open>
  The host calls \<open>calculate\<close> once per step; a run is the sequence of these calls, and it
  ends at the first call that fails.
\<close>

fun calculate_steps :: "host \<Rightarrow> step_input list \<Rightarrow> metainference \<Rightarrow> error + metainference" where
  "calculate_steps h [] m = Inr m"
| "calculate_steps h (inp # inps) m = and_then (calculate h inp m) (calculate_steps h inps)"

text \<open>
  The phases of \<open>calculate\<close>: the sampler call of line 465, the first step recorded at
  line 467, the acceptance published at lines 468-470 and the dispatch of lines 473-482.
  Lemma \<open>calculate_phases\<close> shows that \<open>calculate\<close> is their composition.
\<close>

definition sampled :: "host \<Rightarrow> step_input \<Rightarrow> metainference \<Rightarrow> metainference" where
  "sampled h inp m =
     (if getStep inp smod int (unat (MCstride m)) = 0 \<and> \<not> getExchangeStep inp
      then doMonteCarlo h inp m else m)"

definition first_recorded :: "step_input \<Rightarrow> metainference \<Rightarrow> metainference" where
  "first_recorded inp m = (if MCfirst m = - 1 then m\<lparr>MCfirst := getStep inp\<rparr> else m)"

definition accept_published :: "step_input \<Rightarrow> metainference \<Rightarrow> metainference" where
  "accept_published inp m =
     m\<lparr>valueAccept := real (unat (MCaccept m)) / real (unat (MCsteps m))
         / (real_of_int \<lfloor>real_of_int (getStep inp - MCfirst m) / real (unat (MCstride m))\<rfloor> + 1.0)\<rparr>"

definition forces_of :: "host \<Rightarrow> step_input \<Rightarrow> metainference \<Rightarrow> real \<times> metainference" where
  "forces_of h inp m =
     (case noise_type m of
        GAUSS \<Rightarrow> getEnergyForceGJE h inp m
      | MGAUSS \<Rightarrow> getEnergyForceGJE h inp m
      | LTAIL \<Rightarrow> getEnergyForceSPE h inp m)"

text \<open>
  The energy of the long-tailed variant in the words of the specification: the sum over
  the arguments of \<open>ln (2 a2 / (1 - exp (- a2 / sigma_mean\<^sup>2)))\<close> with
  \<open>a2 = 0.5 (scale argument - reference)\<^sup>2 + s\<^sup>2\<close> and \<open>s = sqrt (sigma\<^sup>2 + sigma_mean\<^sup>2)\<close>,
  plus \<open>ln s - N ln (c s)\<close> once. The constant \<open>c\<close> of the normalisation is a parameter:
  the specification writes \<open>sqrt (2 / pi)\<close>, the source holds \<open>sqrt2_div_pi\<close>.
\<close>

definition ltail_energy :: "real \<Rightarrow> real list \<Rightarrow> real list \<Rightarrow> real \<Rightarrow> real \<Rightarrow> real \<Rightarrow> real" where
  "ltail_energy c args refs sg sc smean =
    (let s = sqrt (sg\<^sup>2 + smean\<^sup>2)
     in (\<Sum>i<length args.
           let a2 = 0.5 * (sc * args ! i - refs ! i)\<^sup>2 + s\<^sup>2
           in ln (2 * a2 / (1 - exp (- a2 / smean\<^sup>2))))
        + (ln s - real (length args) * ln (c * s)))"

subsection \<open>Example objects\<close>

text \<open>
  A host with one replica and one rank, and the object the constructor builds there from
  the options \<open>ao_ex\<close>: one argument with reference 0, Gaussian noise with one sigma, no
  sampling of the scale. The stream of \<open>m_ex\<close> always yields \<open>RAND_MAX\<close>, that of \<open>m_low\<close>
  always 0. \<open>raw_ex\<close> is the storage before the construction.
\<close>

definition h_ex :: host where
  "h_ex = \<lparr>comm_Get_rank = 0, comm_Get_size = 1,
           multi_sim_comm_Get_rank = 0, multi_sim_comm_Get_size = 1,
           getKBoltzmann = 1, getKbT = 1, getStride = 1, time_NULL = 0,
           RAND_MAX = 32767, rand_after_srand = (\<lambda>seed n. 32767)\<rparr>"

definition m_ex :: metainference where
  "m_ex = \<lparr>parameters = [0], noise_type = GAUSS, doscale = False, scale = 1,
           scale_min = 1 / 2, scale_max = 2, Dscale = 1 / 10,
           sigma = [1 / 2], sigma_min = 0, sigma_max = 1, Dsigma = 1 / 4,
           sigma_mean = 1, kbt = 1, ndata = 1, old_energy = 0,
           MCsteps = 1, MCstride = 1, MCaccept = 0, MCfirst = - 1,
           valueBias = 0, valueScale = 0, valueAccept = 0, valueSigma = [0],
           nrep = 1, replica = 0, outputForces = (\<lambda>i. 0),
           rand_stream = (\<lambda>n. 32767), rand_pos = 0\<rparr>"

definition inp_ex :: step_input where
  "inp_ex = \<lparr>getStep = 0, getExchangeStep = False, arguments = [0],
             multi_sim_others_inv_s2 = [], comm_others_inv_s2 = [],
             multi_sim_others_f = [], multi_sim_others_ene = [],
             comm_others_f = [], comm_others_ene = [],
             root_new_scale = (\<lambda>i. 0), root_scale = (\<lambda>i. 0)\<rparr>"

definition ao_ex :: options where
  "ao_ex = \<lparr>ARG = 1, PARAMETERS = [0], PARARG = [], NOISETYPE = ''GAUSS'', SCALEDATA = False,
            SCALE0 = 1, SCALE_MIN = 1 / 2, SCALE_MAX = 2, DSCALE = 1 / 10,
            SIGMA0 = [1 / 2], SIGMA_MIN = 0, SIGMA_MAX = 1, DSIGMA = 1 / 4,
            SIGMA_MEAN = 1, TEMP = None, MC_STEPS = None, MC_STRIDE = None\<rparr>"

definition raw_ex :: metainference where
  "raw_ex = m_ex\<lparr>parameters := [7], noise_type := LTAIL, sigma := [7, 7], sigma_min := 7,
             sigma_max := 7, Dsigma := 7, sigma_mean := 7, kbt := 7, ndata := 7, old_energy := 7,
             MCsteps := 7, MCstride := 7, MCaccept := 7, MCfirst := 7, valueBias := 7,
             valueAccept := 7, valueSigma := [], nrep := 7, replica := 7,
             rand_stream := (\<lambda>n. 7), rand_pos := 7\<rparr>"

definition m_low :: metainference where
  "m_low = m_ex\<lparr>rand_stream := (\<lambda>n. 0)\<rparr>"

definition m_seeded :: metainference where
  "m_seeded = m_low\<lparr>old_energy := ln (5 / 4 * sqrt2pi)\<rparr>"

text \<open>No temperature: \<open>getKbT()\<close> is 0, and so is \<open>kbt_\<close>.\<close>

definition h_cold :: host where
  "h_cold = h_ex\<lparr>getKbT := 0\<rparr>"

definition m_cold :: metainference where
  "m_cold = m_ex\<lparr>kbt := 0\<rparr>"

text \<open>An object whose step of sigma is wider than the interval of sigma.\<close>

definition m_wide :: metainference where
  "m_wide = m_ex\<lparr>Dsigma := 10\<rparr>"

text \<open>The long-tailed variant, with sigma 0.\<close>

definition m_ltail :: metainference where
  "m_ltail = m_ex\<lparr>noise_type := LTAIL, sigma := [0]\<rparr>"

text \<open>Two arguments, one sigma each.\<close>

definition ao_mgauss :: options where
  "ao_mgauss = ao_ex\<lparr>ARG := 2, PARAMETERS := [0, 0], NOISETYPE := ''MGAUSS''\<rparr>"

definition m_mgauss :: metainference where
  "m_mgauss = m_ex\<lparr>parameters := [0, 0], noise_type := MGAUSS, sigma := [1 / 2, 1 / 2],
                  ndata := 2, valueSigma := [0, 0]\<rparr>"

text \<open>Four replicas.\<close>

definition h_four :: host where
  "h_four = h_ex\<lparr>multi_sim_comm_Get_size := 4\<rparr>"

definition m_four :: metainference where
  "m_four = m_ex\<lparr>sigma_mean := 1 / 2, nrep := 4\<rparr>"

text \<open>No inner Monte Carlo step: \<open>MC_STEPS=0\<close>.\<close>

definition ao_no_steps :: options where
  "ao_no_steps = ao_ex\<lparr>MC_STEPS := Some 0\<rparr>"

definition m_no_steps :: metainference where
  "m_no_steps = m_ex\<lparr>MCsteps := 0\<rparr>"

text \<open>
  A sampler stride of 2 and a run that is resumed at step 1: the first call of
  \<open>calculate\<close> is at step 1, the first call of the sampler at step 2.
\<close>

definition ao_stride2 :: options where
  "ao_stride2 = ao_ex\<lparr>MC_STRIDE := Some 2\<rparr>"

definition m_stride2 :: metainference where
  "m_stride2 = m_ex\<lparr>MCstride := 2\<rparr>"

definition inp_step1 :: step_input where
  "inp_step1 = inp_ex\<lparr>getStep := 1\<rparr>"

definition inp_step2 :: step_input where
  "inp_step2 = inp_ex\<lparr>getStep := 2\<rparr>"

definition m_after1 :: metainference where
  "m_after1 = m_stride2\<lparr>MCfirst := 1, valueBias := ln (5 / 4 * sqrt2pi)\<rparr>"

section \<open>Auxiliary facts\<close>

subsection \<open>The random-walk moves and their reflection\<close>

lemma rand_fields:
  "fst (rand m) = rand_stream m (rand_pos m)"
  "snd (rand m) = m\<lparr>rand_pos := Suc (rand_pos m)\<rparr>"
  by (simp_all add: rand_def)

lemma unit_draw:
  assumes "0 < N" "n \<le> N"
  shows "0 \<le> real n / real N \<and> real n / real N \<le> 1"
  using assms by simp

lemma step_within:
  fixes D r :: real
  assumes "0 \<le> D" "0 \<le> r" "r \<le> 1"
  shows "- D \<le> - D + r * 2.0 * D \<and> - D + r * 2.0 * D \<le> D"
proof -
  have a: "0 \<le> r * D" using assms by simp
  have "r * D \<le> 1 * D" using assms by (intro mult_right_mono)
  with a show ?thesis by (simp add: mult.commute)
qed

lemma reflect_within:
  fixes v lo hi d D :: real
  assumes "lo \<le> v" "v \<le> hi" "- D \<le> d" "d \<le> D" "D \<le> hi - lo"
  defines "p \<equiv> v + d"
  defines "p1 \<equiv> (if p > hi then 2.0 * hi - p else p)"
  defines "p2 \<equiv> (if p1 < lo then 2.0 * lo - p1 else p1)"
  shows "lo \<le> p2 \<and> p2 \<le> hi"
  using assms by (auto simp: p_def p1_def p2_def)

lemma move_scale_eq:
  "fst (move_scale h m) =
    (let p = scale m + (- Dscale m + real (rand_stream m (rand_pos m)) / real (RAND_MAX h) * 2.0 * Dscale m);
         p1 = (if p > scale_max m then 2.0 * scale_max m - p else p)
     in if p1 < scale_min m then 2.0 * scale_min m - p1 else p1)"
  "snd (move_scale h m) = m\<lparr>rand_pos := Suc (rand_pos m)\<rparr>"
  by (simp_all add: move_scale_def rand_def Let_def)

lemma move_sigma_eq:
  "fst (move_sigma h x m) =
    (let p = x + (- Dsigma m + real (rand_stream m (rand_pos m)) / real (RAND_MAX h) * 2.0 * Dsigma m);
         p1 = (if p > sigma_max m then 2.0 * sigma_max m - p else p)
     in if p1 < sigma_min m then 2.0 * sigma_min m - p1 else p1)"
  "snd (move_sigma h x m) = m\<lparr>rand_pos := Suc (rand_pos m)\<rparr>"
  by (simp_all add: move_sigma_def rand_def Let_def)

lemma move_scale_bounds:
  assumes "0 < RAND_MAX h" "rand_stream m (rand_pos m) \<le> RAND_MAX h"
    "scale_min m \<le> scale m" "scale m \<le> scale_max m"
    "0 \<le> Dscale m" "Dscale m \<le> scale_max m - scale_min m"
  shows "scale_min m \<le> fst (move_scale h m) \<and> fst (move_scale h m) \<le> scale_max m"
proof -
  let ?r = "real (rand_stream m (rand_pos m)) / real (RAND_MAX h)"
  have r: "0 \<le> ?r \<and> ?r \<le> 1" using assms(1,2) by (rule unit_draw)
  have d: "- Dscale m \<le> - Dscale m + ?r * 2.0 * Dscale m \<and> - Dscale m + ?r * 2.0 * Dscale m \<le> Dscale m"
    using assms(5) r by (intro step_within) auto
  show ?thesis
    unfolding move_scale_eq Let_def
    using reflect_within [OF assms(3,4) conjunct1 [OF d] conjunct2 [OF d] assms(6)]
    by simp
qed

lemma move_sigma_bounds:
  assumes "0 < RAND_MAX h" "rand_stream m (rand_pos m) \<le> RAND_MAX h"
    "sigma_min m \<le> x" "x \<le> sigma_max m"
    "0 \<le> Dsigma m" "Dsigma m \<le> sigma_max m - sigma_min m"
  shows "sigma_min m \<le> fst (move_sigma h x m) \<and> fst (move_sigma h x m) \<le> sigma_max m"
proof -
  let ?r = "real (rand_stream m (rand_pos m)) / real (RAND_MAX h)"
  have r: "0 \<le> ?r \<and> ?r \<le> 1" using assms(1,2) by (rule unit_draw)
  have d: "- Dsigma m \<le> - Dsigma m + ?r * 2.0 * Dsigma m \<and> - Dsigma m + ?r * 2.0 * Dsigma m \<le> Dsigma m"
    using assms(5) r by (intro step_within) auto
  show ?thesis
    unfolding move_sigma_eq Let_def
    using reflect_within [OF assms(3,4) conjunct1 [OF d] conjunct2 [OF d] assms(6)]
    by simp
qed

lemma propose_sigma_bounds:
  assumes "0 < RAND_MAX h" "\<forall>n. rand_stream m n \<le> RAND_MAX h"
    "\<forall>x\<in>set sg. sigma_min m \<le> x \<and> x \<le> sigma_max m"
    "0 \<le> Dsigma m" "Dsigma m \<le> sigma_max m - sigma_min m"
  shows "\<forall>v\<in>set (fst (propose_sigma h sg m)). sigma_min m \<le> v \<and> v \<le> sigma_max m"
  using assms
proof (induction sg arbitrary: m)
  case Nil
  then show ?case by simp
next
  case (Cons x sg)
  let ?m1 = "m\<lparr>rand_pos := Suc (rand_pos m)\<rparr>"
  have hd: "sigma_min m \<le> fst (move_sigma h x m) \<and> fst (move_sigma h x m) \<le> sigma_max m"
    using Cons.prems by (intro move_sigma_bounds) auto
  have tl: "\<forall>v\<in>set (fst (propose_sigma h sg ?m1)). sigma_min ?m1 \<le> v \<and> v \<le> sigma_max ?m1"
    using Cons.prems by (intro Cons.IH) auto
  show ?case using hd tl
    by (simp add: split_beta Let_def move_sigma_eq(2))
qed

lemma propose_sigma_snd:
  "snd (propose_sigma h sg m) = m\<lparr>rand_pos := rand_pos m + length sg\<rparr>"
  by (induction sg arbitrary: m) (simp_all add: split_beta Let_def move_sigma_eq(2))

lemma propose_sigma_length:
  "length (fst (propose_sigma h sg m)) = length sg"
  by (induction sg arbitrary: m) (simp_all add: split_beta Let_def)

lemma propose_sigma_nth:
  "j < length sg \<Longrightarrow>
   fst (propose_sigma h sg m) ! j = fst (move_sigma h (sg ! j) (m\<lparr>rand_pos := rand_pos m + j\<rparr>))"
proof (induction sg arbitrary: m j)
  case Nil
  then show ?case by simp
next
  case (Cons x sg)
  show ?case
  proof (cases j)
    case 0
    then show ?thesis by (simp add: split_beta Let_def)
  next
    case (Suc k)
    with Cons.prems have "k < length sg" by simp
    from Cons.IH [OF this, of "snd (move_sigma h x m)"] Suc
    show ?thesis by (simp add: split_beta Let_def move_sigma_eq(2))
  qed
qed

subsection \<open>The constructor\<close>

lemma comm_Sum_rank0:
  "comm_Sum h (\<lambda>rank. if rank = 0 then x else 0) = (if comm_Get_size h = 0 then 0 else x)"
proof -
  have "foldl (+) 0 (map (\<lambda>rank. if rank = 0 then x else 0) [0..<n]) = (if n = 0 then 0 else x)" for n
    by (induction n) simp_all
  then show ?thesis by (simp add: comm_Sum_def)
qed

lemma and_then_Inr:
  "and_then r f = Inr y \<longleftrightarrow> (\<exists>x. r = Inr x \<and> f x = Inr y)"
  by (cases r) (simp_all add: and_then_def)

lemma read_parameters_frame:
  assumes "read_parameters ao m = Inr m'"
  shows "noise_type m' = noise_type m" "sigma m' = sigma m" "sigma_mean m' = sigma_mean m"
    "nrep m' = nrep m" "length (parameters m') = ARG ao"
  using assms by (auto simp: read_parameters_def Let_def split: if_splits)

lemma read_noise_Inr:
  assumes "read_noise ao m = Inr m'"
  shows "m' = m\<lparr>noise_type := noise_type m'\<rparr>"
    and "noise_type m' = MGAUSS \<longleftrightarrow> NOISETYPE ao = ''MGAUSS''"
  using assms by (auto simp: read_noise_def Let_def split: if_splits)

lemma read_scale_frame:
  "noise_type (read_scale ao m) = noise_type m"
  by (simp add: read_scale_def Let_def)

lemma read_sigma_Inr:
  assumes "read_sigma h ao m = Inr m'"
  shows "noise_type m' = noise_type m"
    and "sigma_mean m' = SIGMA_MEAN ao"
    and "noise_type m = MGAUSS \<Longrightarrow> length (sigma m') = ARG ao"
    and "noise_type m \<noteq> MGAUSS \<Longrightarrow> 1 \<le> ARG ao \<Longrightarrow> length (sigma m') = 1"
  using assms by (auto simp: read_sigma_def Let_def split: if_splits)

lemma finish_frame:
  "noise_type (seed_rand h (add_components (count_replicas h m))) = noise_type m"
  "sigma (seed_rand h (add_components (count_replicas h m))) = sigma m"
  "sigma_mean (seed_rand h (add_components (count_replicas h m)))
     = sigma_mean m / sqrt (real (unat (comm_Sum h (\<lambda>rank. if rank = 0 then multi_sim_comm_Get_size h else 0))))"
  "nrep (seed_rand h (add_components (count_replicas h m)))
     = comm_Sum h (\<lambda>rank. if rank = 0 then multi_sim_comm_Get_size h else 0)"
  by (simp_all add: seed_rand_def add_components_def count_replicas_def Let_def)

lemma Metainference_Inr:
  assumes "Metainference h ao raw = Inr m"
  shows "noise_type m = MGAUSS \<longleftrightarrow> NOISETYPE ao = ''MGAUSS''"
    and "noise_type m = MGAUSS \<Longrightarrow> length (sigma m) = ARG ao"
    and "noise_type m \<noteq> MGAUSS \<Longrightarrow> 1 \<le> ARG ao \<Longrightarrow> length (sigma m) = 1"
    and "sigma_mean m = SIGMA_MEAN ao / sqrt (real (unat (nrep m)))"
    and "nrep m = comm_Sum h (\<lambda>rank. if rank = 0 then multi_sim_comm_Get_size h else 0)"
proof -
  from assms obtain m1 m2 m3 where
    1: "read_parameters ao (initialiser_list ao raw) = Inr m1" and
    2: "read_noise ao m1 = Inr m2" and
    3: "read_sigma h ao (read_scale ao m2) = Inr m3" and
    4: "m = seed_rand h (add_components (count_replicas h m3))"
    unfolding Metainference_def and_then_Inr by auto
  have nt: "noise_type m = noise_type m2"
    using read_sigma_Inr(1) [OF 3] by (simp add: 4 finish_frame read_scale_frame)
  show "noise_type m = MGAUSS \<longleftrightarrow> NOISETYPE ao = ''MGAUSS''"
    using read_noise_Inr(2) [OF 2] nt by simp
  show "noise_type m = MGAUSS \<Longrightarrow> length (sigma m) = ARG ao"
    using read_sigma_Inr(3) [OF 3] nt by (simp add: 4 finish_frame read_scale_frame)
  show "noise_type m \<noteq> MGAUSS \<Longrightarrow> 1 \<le> ARG ao \<Longrightarrow> length (sigma m) = 1"
    using read_sigma_Inr(4) [OF 3] nt by (simp add: 4 finish_frame read_scale_frame)
  show "nrep m = comm_Sum h (\<lambda>rank. if rank = 0 then multi_sim_comm_Get_size h else 0)"
    by (simp add: 4 finish_frame)
  then show "sigma_mean m = SIGMA_MEAN ao / sqrt (real (unat (nrep m)))"
    using read_sigma_Inr(2) [OF 3] by (simp add: 4 finish_frame)
qed

subsection \<open>What the sampler leaves alone\<close>

lemma same_setup_refl: "same_setup m m"
  by (simp add: same_setup_def)

lemma same_setup_trans: "same_setup a b \<Longrightarrow> same_setup b c \<Longrightarrow> same_setup a c"
  by (simp add: same_setup_def)

lemma propose_scale_snd:
  "snd (propose_scale h inp i m) = (if doscale m then m\<lparr>rand_pos := Suc (rand_pos m)\<rparr> else m)"
  by (simp add: propose_scale_def move_scale_def rand_def split_beta Let_def)

lemma accept_move_setup:
  "same_setup m (accept_move ne ns nsg m)"
  "MCfirst (accept_move ne ns nsg m) = MCfirst m"
  by (simp_all add: same_setup_def accept_move_def)

lemma rand_setup:
  "same_setup m (snd (rand m))"
  "MCfirst (snd (rand m)) = MCfirst m"
  by (simp_all add: same_setup_def rand_def)

lemma accept_or_reject_setup:
  "same_setup m (accept_or_reject h ne ns nsg m)"
  "MCfirst (accept_or_reject h ne ns nsg m) = MCfirst m"
proof -
  have eq: "accept_or_reject h ne ns nsg m =
     (if le_zero (divide_double (ne - old_energy m) (kbt m)) then accept_move ne ns nsg m
      else if less_exp_minus (real (fst (rand m)) / real (RAND_MAX h))
                (divide_double (ne - old_energy m) (kbt m))
           then accept_move ne ns nsg (snd (rand m)) else snd (rand m))"
    by (simp add: accept_or_reject_def split_beta Let_def)
  show "same_setup m (accept_or_reject h ne ns nsg m)"
    unfolding eq
    by (auto intro: same_setup_trans [OF rand_setup(1) accept_move_setup(1)] accept_move_setup(1) rand_setup(1))
  show "MCfirst (accept_or_reject h ne ns nsg m) = MCfirst m"
    unfolding eq by (simp add: accept_move_setup rand_setup)
qed

lemma accept_or_reject_doscale:
  "doscale (accept_or_reject h ne ns nsg m) = doscale m"
  using accept_or_reject_setup(1) [where m = m and h = h and ne = ne and ns = ns and nsg = nsg]
  by (simp add: same_setup_def)

lemma bcast_scale_root:
  assumes "doscale m \<longrightarrow> comm_Get_rank h = 0 \<and> multi_sim_comm_Get_rank h = 0"
  shows "bcast_scale h inp i m = m"
  using assms by (simp add: bcast_scale_def Bcast_def Let_def)

lemma bcast_scale_setup:
  "same_setup m (bcast_scale h inp i m)"
  "MCfirst (bcast_scale h inp i m) = MCfirst m"
  by (simp_all add: same_setup_def bcast_scale_def Let_def)

lemma mc_step_setup:
  "same_setup m (mc_step h inp i m)"
  "MCfirst (mc_step h inp i m) = MCfirst m"
proof -
  let ?m1 = "snd (propose_scale h inp i m)"
  let ?m2 = "snd (propose_sigma h (sigma ?m1) ?m1)"
  have 1: "same_setup m ?m1" "MCfirst ?m1 = MCfirst m"
    by (simp_all add: propose_scale_snd same_setup_def)
  have 2: "same_setup ?m1 ?m2" "MCfirst ?m2 = MCfirst ?m1"
    by (simp_all add: propose_sigma_snd same_setup_def)
  have eq: "mc_step h inp i m = bcast_scale h inp i
      (accept_or_reject h (new_energy_of ?m2 (arguments inp)
          (fst (propose_sigma h (sigma ?m1) ?m1)) (fst (propose_scale h inp i m)))
        (fst (propose_scale h inp i m)) (fst (propose_sigma h (sigma ?m1) ?m1)) ?m2)"
    by (simp add: mc_step_def split_beta Let_def)
  show "same_setup m (mc_step h inp i m)"
    unfolding eq
    by (blast intro: same_setup_trans 1 2 accept_or_reject_setup bcast_scale_setup)
  show "MCfirst (mc_step h inp i m) = MCfirst m"
    unfolding eq by (simp add: bcast_scale_setup accept_or_reject_setup 1 2)
qed

lemma fold_mc_step_setup:
  "same_setup m (fold (mc_step h inp) is m) \<and> MCfirst (fold (mc_step h inp) is m) = MCfirst m"
proof (induction "is" arbitrary: m)
  case Nil
  show ?case by (simp add: same_setup_refl)
next
  case (Cons i "is")
  from Cons.IH [of "mc_step h inp i m"] mc_step_setup [where m = m and h = h and inp = inp and i = i]
  show ?case by (auto intro: same_setup_trans)
qed

lemma seed_old_energy_setup:
  "same_setup m (seed_old_energy args m)"
  "MCfirst (seed_old_energy args m) = MCfirst m"
  "MCaccept (seed_old_energy args m) = MCaccept m"
  "sigma (seed_old_energy args m) = sigma m"
  "scale (seed_old_energy args m) = scale m"
  by (simp_all add: same_setup_def seed_old_energy_def split: noise.split)

lemma publish_sigma_setup:
  "same_setup m (fold (\<lambda>i m'. m'\<lparr>valueSigma := (valueSigma m')[i := sigma m' ! i]\<rparr>) is m)
   \<and> MCfirst (fold (\<lambda>i m'. m'\<lparr>valueSigma := (valueSigma m')[i := sigma m' ! i]\<rparr>) is m) = MCfirst m"
proof (induction "is" arbitrary: m)
  case Nil
  show ?case by (simp add: same_setup_refl)
next
  case (Cons i "is")
  from Cons.IH [of "m\<lparr>valueSigma := (valueSigma m)[i := sigma m ! i]\<rparr>"]
  show ?case by (simp add: same_setup_def)
qed

lemma publish_scale_setup:
  "same_setup x (if doscale x then x\<lparr>valueScale := scale x\<rparr> else x)"
  "MCfirst (if doscale x then x\<lparr>valueScale := scale x\<rparr> else x) = MCfirst x"
  by (simp_all add: same_setup_def)

lemma doMonteCarlo_setup:
  "same_setup m (doMonteCarlo h inp m)"
  "MCfirst (doMonteCarlo h inp m) = MCfirst m"
proof -
  define m1 where "m1 = seed_old_energy (arguments inp) m"
  define m2 where "m2 = fold (mc_step h inp) [0..<unat (MCsteps m1)] m1"
  define m3 where "m3 = (if doscale m2 then m2\<lparr>valueScale := scale m2\<rparr> else m2)"
  define m4 where "m4 = fold (\<lambda>i m'. m'\<lparr>valueSigma := (valueSigma m')[i := sigma m' ! i]\<rparr>)
      [0..<length (sigma m3)] m3"
  have eq: "doMonteCarlo h inp m = m4"
    unfolding doMonteCarlo_def Let_def m4_def m3_def m2_def m1_def ..
  have 1: "same_setup m m1" "MCfirst m1 = MCfirst m"
    unfolding m1_def by (rule seed_old_energy_setup)+
  have 2: "same_setup m1 m2" "MCfirst m2 = MCfirst m1"
    unfolding m2_def using fold_mc_step_setup by blast+
  have 3: "same_setup m2 m3" "MCfirst m3 = MCfirst m2"
    unfolding m3_def by (rule publish_scale_setup)+
  have 4: "same_setup m3 m4" "MCfirst m4 = MCfirst m3"
    unfolding m4_def using publish_sigma_setup by blast+
  show "same_setup m (doMonteCarlo h inp m)"
    unfolding eq
    by (rule same_setup_trans [OF same_setup_trans [OF same_setup_trans [OF 1(1) 2(1)] 3(1)] 4(1)])
  show "MCfirst (doMonteCarlo h inp m) = MCfirst m"
    unfolding eq by (simp only: 1 2 3 4)
qed

subsection \<open>The loops of getEnergyForceGJE and getEnergyForceSPE\<close>

lemma Sum_vec_alone [simp]: "Sum_vec [] buf = buf"
  by (simp add: Sum_vec_def)

lemma Sum_val_alone [simp]: "Sum_val [] x = x"
  by (simp add: Sum_val_def)

lemma GJE_loop:
  fixes inv_s2 ss args :: "real list"
  defines "body \<equiv> (\<lambda>i (ene, m').
               let dev = scale m' * args ! i - parameters m' ! i;
                   sel_sigma = (if noise_type m' = MGAUSS then i else 0)
               in (ene + (0.5 * dev * dev * inv_s2 ! sel_sigma + ln (ss ! sel_sigma * sqrt2pi)),
                   setOutputForce i (- kbt m' * dev * scale m' * inv_s2 ! sel_sigma) m'))"
  shows "fold body [0..<n] (e, m) =
     (e + (\<Sum>i<n. 0.5 * (scale m * args ! i - parameters m ! i) * (scale m * args ! i - parameters m ! i)
                     * inv_s2 ! (if noise_type m = MGAUSS then i else 0)
                   + ln (ss ! (if noise_type m = MGAUSS then i else 0) * sqrt2pi)),
      m\<lparr>outputForces := (\<lambda>j. if j < n
            then - kbt m * (scale m * args ! j - parameters m ! j) * scale m
                   * inv_s2 ! (if noise_type m = MGAUSS then j else 0)
            else outputForces m j)\<rparr>)"
proof (induction n)
  case 0
  show ?case by simp
next
  case (Suc n)
  have "fold body [0..<Suc n] (e, m) = body n (fold body [0..<n] (e, m))"
    by simp
  also note Suc.IH
  finally show ?case
    by (simp add: body_def setOutputForce_def Let_def fun_eq_iff less_Suc_eq)
qed

lemma getEnergyForceGJE_alone:
  assumes "comm_Get_rank h = 0" "multi_sim_others_inv_s2 inp = []" "comm_others_inv_s2 inp = []"
  shows "getEnergyForceGJE h inp m =
     (0 + (\<Sum>i<length (arguments inp).
          0.5 * (scale m * arguments inp ! i - parameters m ! i) * (scale m * arguments inp ! i - parameters m ! i)
            * (map (\<lambda>i. 1.0 / (map (\<lambda>i. sigma m ! i * sigma m ! i + sigma_mean m * sigma_mean m) [0..<length (sigma m)]) ! i) [0..<length (sigma m)]) ! (if noise_type m = MGAUSS then i else 0)
          + ln ((map (\<lambda>i. sigma m ! i * sigma m ! i + sigma_mean m * sigma_mean m) [0..<length (sigma m)]) ! (if noise_type m = MGAUSS then i else 0) * sqrt2pi)),
      m\<lparr>outputForces := (\<lambda>j. if j < length (arguments inp)
            then - kbt m * (scale m * arguments inp ! j - parameters m ! j) * scale m
                   * (map (\<lambda>i. 1.0 / (map (\<lambda>i. sigma m ! i * sigma m ! i + sigma_mean m * sigma_mean m) [0..<length (sigma m)]) ! i) [0..<length (sigma m)]) ! (if noise_type m = MGAUSS then j else 0)
            else outputForces m j)\<rparr>)"
  unfolding getEnergyForceGJE_def Let_def assms(1,2,3)
  apply (simp only: if_True simp_thms Sum_vec_alone)
  apply (rule GJE_loop [unfolded Let_def])
  done

lemma getEnergyForceGJE_frame:
  "snd (getEnergyForceGJE h inp m) = m\<lparr>outputForces := outputForces (snd (getEnergyForceGJE h inp m))\<rparr>"
  unfolding getEnergyForceGJE_def Let_def
  by (simp only: GJE_loop [unfolded Let_def] snd_conv) simp

lemma SPE_energy_loop:
  fixes s smean2 sc :: real and args ps :: "real list"
  defines "body \<equiv> (\<lambda>i (f, ene).
                      let dev = sc * args ! i - ps ! i;
                          a2 = 0.5 * dev * dev + s * s;
                          t = exp (- a2 / smean2);
                          dt = 1 / t;
                          it = 1 / (1 - t);
                          dit = 1 / (1 - dt)
                      in (f[i := - sc * dev * (dit / smean2 + 1 / a2)],
                          ene + ln (2 * a2 * it)))"
  shows "snd (fold body [0..<n] (f0, e)) =
     e + (\<Sum>i<n. ln (2 * (0.5 * (sc * args ! i - ps ! i) * (sc * args ! i - ps ! i) + s * s)
                       * (1 / (1 - exp (- (0.5 * (sc * args ! i - ps ! i) * (sc * args ! i - ps ! i) + s * s) / smean2)))))"
proof (induction n)
  case 0
  show ?case by simp
next
  case (Suc n)
  have "snd (fold body [0..<Suc n] (f0, e)) = snd (body n (fold body [0..<n] (f0, e)))"
    by simp
  also have "\<dots> = snd (fold body [0..<n] (f0, e))
      + ln (2 * (0.5 * (sc * args ! n - ps ! n) * (sc * args ! n - ps ! n) + s * s)
            * (1 / (1 - exp (- (0.5 * (sc * args ! n - ps ! n) * (sc * args ! n - ps ! n) + s * s) / smean2))))"
    by (simp only: body_def split_beta Let_def snd_conv)
  finally show ?case by (simp only: Suc.IH sum.lessThan_Suc add.assoc)
qed

lemma force_loop:
  "fold (\<lambda>i m'. setOutputForce i (kbt m' * f ! i) m') [0..<n] m =
     m\<lparr>outputForces := (\<lambda>j. if j < n then kbt m * f ! j else outputForces m j)\<rparr>"
proof (induction n)
  case 0
  show ?case by simp
next
  case (Suc n)
  then show ?case
    by (simp add: setOutputForce_def fun_eq_iff less_Suc_eq)
qed

lemma getEnergyForceSPE_frame:
  "snd (getEnergyForceSPE h inp m) = m\<lparr>outputForces := outputForces (snd (getEnergyForceSPE h inp m))\<rparr>"
  unfolding getEnergyForceSPE_def Let_def
  by (simp only: force_loop snd_conv split_beta) simp

lemma getEnergyForceSPE_alone:
  assumes "comm_Get_rank h = 0" "multi_sim_others_ene inp = []" "comm_others_ene inp = []"
  shows "fst (getEnergyForceSPE h inp m) =
     0 + (\<Sum>i<length (arguments inp).
        ln (2 * (0.5 * (scale m * arguments inp ! i - parameters m ! i) * (scale m * arguments inp ! i - parameters m ! i)
                + sqrt (sigma m ! 0 * sigma m ! 0 + sigma_mean m * sigma_mean m)
                  * sqrt (sigma m ! 0 * sigma m ! 0 + sigma_mean m * sigma_mean m))
           * (1 / (1 - exp (- (0.5 * (scale m * arguments inp ! i - parameters m ! i) * (scale m * arguments inp ! i - parameters m ! i)
                + sqrt (sigma m ! 0 * sigma m ! 0 + sigma_mean m * sigma_mean m)
                  * sqrt (sigma m ! 0 * sigma m ! 0 + sigma_mean m * sigma_mean m)) / (sigma_mean m * sigma_mean m))))))
     + (ln (sqrt (sigma m ! 0 * sigma m ! 0 + sigma_mean m * sigma_mean m))
        - real (ndata m) * ln (sqrt2_div_pi * sqrt (sigma m ! 0 * sigma m ! 0 + sigma_mean m * sigma_mean m)))"
  unfolding getEnergyForceSPE_def Let_def assms
  by (simp only: if_True simp_thms Sum_val_alone split_beta fst_conv snd_conv
      SPE_energy_loop [unfolded Let_def])

subsection \<open>The loops of getEnergySPE and getEnergyGJE\<close>

lemma fold_add_upt:
  fixes g :: "nat \<Rightarrow> real"
  shows "fold (\<lambda>i ene. ene + g i) [0..<n] e = e + (\<Sum>i<n. g i)"
  by (induction n) simp_all

lemma getEnergySPE_sum:
  "getEnergySPE m args sg sc =
    kbt m * (0 + (\<Sum>i<length args.
        ln (2.0 * (0.5 * (sc * args ! i - parameters m ! i) * (sc * args ! i - parameters m ! i)
                  + sqrt (sg * sg + sigma_mean m * sigma_mean m) * sqrt (sg * sg + sigma_mean m * sigma_mean m))
            / (1.0 - exp (- (0.5 * (sc * args ! i - parameters m ! i) * (sc * args ! i - parameters m ! i)
                  + sqrt (sg * sg + sigma_mean m * sigma_mean m) * sqrt (sg * sg + sigma_mean m * sigma_mean m))
                  / (sigma_mean m * sigma_mean m)))))
      + (ln (sqrt (sg * sg + sigma_mean m * sigma_mean m))
         - real (ndata m) * ln (sqrt2_div_pi * sqrt (sg * sg + sigma_mean m * sigma_mean m))))"
  unfolding getEnergySPE_def Let_def
  by (simp only: fold_add_upt)

lemma GJE_energy_loop:
  fixes sg args ps :: "real list" and smean2 sc :: real and nt :: noise
  defines "body \<equiv> (\<lambda>i (ene, ss).
                 let ss' = (if nt = MGAUSS then sg ! i * sg ! i + smean2 else ss);
                     dev = sc * args ! i - ps ! i
                 in (ene + (0.5 * dev * dev / ss' + ln (ss' * sqrt2pi)), ss'))"
  shows "fold body [0..<n] (e, ss0) =
     (e + (\<Sum>i<n. 0.5 * (sc * args ! i - ps ! i) * (sc * args ! i - ps ! i)
                      / (if nt = MGAUSS then sg ! i * sg ! i + smean2 else ss0)
                   + ln ((if nt = MGAUSS then sg ! i * sg ! i + smean2 else ss0) * sqrt2pi)),
      if nt = MGAUSS \<and> 0 < n then sg ! (n - 1) * sg ! (n - 1) + smean2 else ss0)"
proof (induction n)
  case 0
  show ?case by simp
next
  case (Suc n)
  have "fold body [0..<Suc n] (e, ss0) = body n (fold body [0..<n] (e, ss0))"
    by simp
  also note Suc.IH
  finally show ?case
    by (simp add: body_def Let_def)
qed

lemma getEnergyGJE_sum:
  "getEnergyGJE m args sg sc =
    kbt m * (0 + (\<Sum>i<length args. 0.5 * (sc * args ! i - parameters m ! i) * (sc * args ! i - parameters m ! i)
                      / (if noise_type m = MGAUSS then sg ! i * sg ! i + sigma_mean m * sigma_mean m
                         else sg ! 0 * sg ! 0 + sigma_mean m * sigma_mean m)
                   + ln ((if noise_type m = MGAUSS then sg ! i * sg ! i + sigma_mean m * sigma_mean m
                         else sg ! 0 * sg ! 0 + sigma_mean m * sigma_mean m) * sqrt2pi)))"
  unfolding getEnergyGJE_def Let_def
  by (simp only: GJE_energy_loop [unfolded Let_def] split_conv)

subsection \<open>The long-tailed energy at the origin\<close>

lemma sqrt2_div_pi_small: "0 < sqrt2_div_pi" "sqrt2_div_pi < 1 / 2" "sqrt2_div_pi\<^sup>2 < 1 / 4"
  by (simp_all add: sqrt2_div_pi_def power2_eq_square)

lemma sqrt_2_over_pi_large: "1 / 2 < sqrt (2 / pi)"
proof -
  have "pi < 4" by (rule pi_less_4)
  then have "1 / 4 < 2 / pi"
    using pi_gt_zero by (simp add: field_simps)
  then have "sqrt (1 / 4) < sqrt (2 / pi)"
    by (simp only: real_sqrt_less_iff)
  then show "1 / 2 < sqrt (2 / pi)"
    by (simp add: real_sqrt_divide)
qed

lemma ltail_term_positive: "0 < ln (2 / (1 - exp (- 1 :: real)))"
proof -
  have pos: "0 < 1 - exp (- 1 :: real)" by simp
  have "1 - exp (- 1 :: real) < 2"
    using exp_gt_zero [of "- 1 :: real"] by linarith
  with pos have "1 < 2 / (1 - exp (- 1 :: real))"
    by (simp add: pos_less_divide_eq)
  then show ?thesis by simp
qed

lemma getEnergySPE_at_origin:
  "getEnergySPE (m_ltail\<lparr>kbt := k\<rparr>) [0] 0 1 = k * (ln (2 / (1 - exp (- 1))) - ln sqrt2_div_pi)"
  unfolding getEnergySPE_sum
  by (simp add: m_ltail_def m_ex_def)

lemma getEnergyForceSPE_at_origin:
  "fst (getEnergyForceSPE h_ex inp_ex m_ltail) = ln (2 / (1 - exp (- 1))) - ln sqrt2_div_pi"
proof -
  have alone: "comm_Get_rank h_ex = 0" "multi_sim_others_ene inp_ex = []" "comm_others_ene inp_ex = []"
    by (simp_all add: h_ex_def inp_ex_def)
  show ?thesis
    unfolding getEnergyForceSPE_alone [OF alone]
    by (simp add: m_ltail_def m_ex_def inp_ex_def)
qed

lemma ltail_energy_at_origin:
  "ltail_energy c [0] [0] 0 1 1 = ln (2 / (1 - exp (- 1))) - ln c"
  by (simp add: ltail_energy_def)

subsection \<open>Accept or reject\<close>

lemma divide_double_finite:
  "y \<noteq> 0 \<Longrightarrow> divide_double x y = Finite (x / y)"
  by (simp add: divide_double_def)

lemma accept_or_reject_decided:
  fixes h ne ns nsg m
  defines "delta \<equiv> divide_double (ne - old_energy m) (kbt m)"
  defines "u \<equiv> real (rand_stream m (rand_pos m)) / real (RAND_MAX h)"
  defines "m3 \<equiv> accept_or_reject h ne ns nsg m"
  shows "le_zero delta \<or> less_exp_minus u delta \<Longrightarrow>
           old_energy m3 = ne \<and> scale m3 = ns \<and> sigma m3 = nsg \<and> MCaccept m3 = MCaccept m + 1"
    and "\<not> (le_zero delta \<or> less_exp_minus u delta) \<Longrightarrow>
           old_energy m3 = old_energy m \<and> scale m3 = scale m \<and> sigma m3 = sigma m
           \<and> MCaccept m3 = MCaccept m"
    and "rand_pos m3 = (if le_zero delta then rand_pos m else Suc (rand_pos m))"
  by (auto simp: delta_def u_def m3_def accept_or_reject_def accept_move_def rand_def Let_def)

lemma accept_or_reject_fields:
  fixes h ne ns nsg m
  assumes "kbt m \<noteq> 0"
  defines "Delta \<equiv> (ne - old_energy m) / kbt m"
  defines "u \<equiv> real (rand_stream m (rand_pos m)) / real (RAND_MAX h)"
  defines "m3 \<equiv> accept_or_reject h ne ns nsg m"
  shows "Delta \<le> 0 \<or> u < exp (- Delta) \<Longrightarrow>
           old_energy m3 = ne \<and> scale m3 = ns \<and> sigma m3 = nsg \<and> MCaccept m3 = MCaccept m + 1"
    and "\<not> (Delta \<le> 0 \<or> u < exp (- Delta)) \<Longrightarrow>
           old_energy m3 = old_energy m \<and> scale m3 = scale m \<and> sigma m3 = sigma m
           \<and> MCaccept m3 = MCaccept m"
    and "rand_pos m3 = (if Delta \<le> 0 then rand_pos m else Suc (rand_pos m))"
  using accept_or_reject_decided [where h = h and ne = ne and ns = ns and nsg = nsg and m = m]
  by (simp_all add: Delta_def u_def m3_def divide_double_finite [OF assms(1)]
      le_zero_def less_exp_minus_def)

subsection \<open>The phases of calculate\<close>

lemma forces_of_frame:
  "snd (forces_of h inp m) = m\<lparr>outputForces := outputForces (snd (forces_of h inp m))\<rparr>"
  unfolding forces_of_def
  by (cases "noise_type m") (simp_all add: getEnergyForceGJE_frame [symmetric] getEnergyForceSPE_frame [symmetric])

lemma forces_of_keeps:
  "same_setup m (snd (forces_of h inp m))"
  "MCfirst (snd (forces_of h inp m)) = MCfirst m"
  "MCaccept (snd (forces_of h inp m)) = MCaccept m"
  "sigma (snd (forces_of h inp m)) = sigma m"
  "scale (snd (forces_of h inp m)) = scale m"
  "old_energy (snd (forces_of h inp m)) = old_energy m"
  "valueAccept (snd (forces_of h inp m)) = valueAccept m"
  "kbt (snd (forces_of h inp m)) = kbt m"
  by (subst forces_of_frame, simp add: same_setup_def)+

lemma calculate_phases:
  "calculate h inp m =
    (if unat (MCstride m) = 0 then Inl ModuloByZero
     else let p = forces_of h inp (accept_published inp (first_recorded inp (sampled h inp m)))
          in Inr ((snd p)\<lparr>valueBias := kbt (snd p) * fst p\<rparr>))"
  by (simp add: calculate_def forces_of_def sampled_def first_recorded_def accept_published_def
      Let_def split_beta)

lemma calculate_Inr:
  assumes "calculate h inp m = Inr m'"
  defines "m2 \<equiv> first_recorded inp (sampled h inp m)"
  shows "unat (MCstride m) \<noteq> 0"
    and "same_setup m2 m'"
    and "MCfirst m' = MCfirst m2" and "MCaccept m' = MCaccept m2"
    and "sigma m' = sigma m2" and "scale m' = scale m2" and "old_energy m' = old_energy m2"
    and "valueAccept m' = real (unat (MCaccept m2)) / real (unat (MCsteps m2))
         / (real_of_int \<lfloor>real_of_int (getStep inp - MCfirst m2) / real (unat (MCstride m2))\<rfloor> + 1)"
    and "valueBias m' = kbt m2 * fst (forces_of h inp (accept_published inp m2))"
    and "outputForces m' = outputForces (snd (forces_of h inp (accept_published inp m2)))"
proof -
  show nz: "unat (MCstride m) \<noteq> 0"
    using assms(1) by (auto simp: calculate_phases split: if_splits)
  define p where "p = forces_of h inp (accept_published inp m2)"
  have m': "m' = (snd p)\<lparr>valueBias := kbt (snd p) * fst p\<rparr>"
    using assms(1) nz by (simp add: calculate_phases Let_def p_def m2_def)
  have ap: "same_setup m2 (accept_published inp m2)"
    "MCfirst (accept_published inp m2) = MCfirst m2"
    "MCaccept (accept_published inp m2) = MCaccept m2"
    "sigma (accept_published inp m2) = sigma m2"
    "scale (accept_published inp m2) = scale m2"
    "old_energy (accept_published inp m2) = old_energy m2"
    "kbt (accept_published inp m2) = kbt m2"
    by (simp_all add: accept_published_def same_setup_def)
  have "same_setup (snd p) m'"
    by (simp add: m' same_setup_def)
  with forces_of_keeps(1) [of "accept_published inp m2" h inp] ap(1)
  show "same_setup m2 m'"
    unfolding p_def by (blast intro: same_setup_trans)
  show "MCfirst m' = MCfirst m2" "MCaccept m' = MCaccept m2" "sigma m' = sigma m2"
    "scale m' = scale m2" "old_energy m' = old_energy m2"
    by (simp_all add: m' p_def forces_of_keeps ap)
  show "valueAccept m' = real (unat (MCaccept m2)) / real (unat (MCsteps m2))
         / (real_of_int \<lfloor>real_of_int (getStep inp - MCfirst m2) / real (unat (MCstride m2))\<rfloor> + 1)"
    by (simp add: m' p_def forces_of_keeps) (simp add: accept_published_def)
  show "valueBias m' = kbt m2 * fst (forces_of h inp (accept_published inp m2))"
    by (simp add: m' p_def forces_of_keeps ap)
  show "outputForces m' = outputForces (snd (forces_of h inp (accept_published inp m2)))"
    by (simp add: m' p_def)
qed

lemma calculate_total:
  "unat (MCstride m) \<noteq> 0 \<Longrightarrow> \<exists>m'. calculate h inp m = Inr m'"
  by (simp add: calculate_phases Let_def)

lemma sampled_setup:
  "same_setup m (sampled h inp m)" "MCfirst (sampled h inp m) = MCfirst m"
  by (simp_all add: sampled_def doMonteCarlo_setup same_setup_refl)

lemma first_recorded_setup:
  "same_setup m (first_recorded inp m)"
  "MCfirst (first_recorded inp m) = (if MCfirst m = - 1 then getStep inp else MCfirst m)"
  "MCaccept (first_recorded inp m) = MCaccept m"
  by (simp_all add: first_recorded_def same_setup_def)

lemma calculate_setup:
  assumes "calculate h inp m = Inr m'"
  shows "same_setup m m'"
    and "MCfirst m' = (if MCfirst m = - 1 then getStep inp else MCfirst m)"
  using calculate_Inr(2,3) [OF assms] sampled_setup [where m = m and h = h and inp = inp]
    first_recorded_setup(1,2) [where m = "sampled h inp m" and inp = inp]
  by (auto intro: same_setup_trans)

lemma calculate_steps_setup:
  "calculate_steps h inps m = Inr m' \<Longrightarrow> same_setup m m'"
proof (induction inps arbitrary: m)
  case Nil
  then show ?case by (simp add: same_setup_refl)
next
  case (Cons inp inps)
  then obtain m1 where 1: "calculate h inp m = Inr m1" and 2: "calculate_steps h inps m1 = Inr m'"
    by (auto simp: and_then_Inr)
  from calculate_setup(1) [OF 1] Cons.IH [OF 2] show ?case
    by (rule same_setup_trans)
qed

subsection \<open>Evaluation at the example objects\<close>

lemmas ctor_defs = Metainference_def and_then_def initialiser_list_def read_parameters_def
      read_noise_def read_scale_def read_sigma_def count_replicas_def add_components_def
      seed_rand_def comm_Sum_def Let_def

lemma Metainference_ao_ex:
  "Metainference h_ex ao_ex raw_ex = Inr m_ex"
  by (simp add: ctor_defs h_ex_def ao_ex_def m_ex_def raw_ex_def)

lemma sqrt2pi_pos: "0 < sqrt2pi" "1 < sqrt2pi"
  by (simp_all add: sqrt2pi_def)

lemma sum_one_argument:
  fixes f :: "nat \<Rightarrow> real"
  shows "(\<Sum>i<length [a]. f i) = f 0"
  by simp

lemma getEnergyGJE_one:
  "getEnergyGJE m [a] [s] sc =
     kbt m * (0.5 * (sc * a - parameters m ! 0) * (sc * a - parameters m ! 0) / (s * s + sigma_mean m * sigma_mean m)
              + ln ((s * s + sigma_mean m * sigma_mean m) * sqrt2pi))"
  unfolding getEnergyGJE_sum sum_one_argument by simp

lemma seed_low:
  "seed_old_energy [0] m_low = m_low\<lparr>old_energy := ln (5 / 4 * sqrt2pi)\<rparr>"
  by (simp add: seed_old_energy_def getEnergyGJE_one m_low_def m_ex_def)

lemma ln_low: "ln (17 / 16 * sqrt2pi) \<le> ln (5 / 4 * sqrt2pi)"
  using sqrt2pi_pos(1) by simp

lemma mc_step_low:
  "mc_step h_ex inp_ex 0 (m_low\<lparr>old_energy := ln (5 / 4 * sqrt2pi)\<rparr>)
     = m_low\<lparr>old_energy := ln (17 / 16 * sqrt2pi), sigma := [1 / 4], MCaccept := 1, rand_pos := 1\<rparr>"
  using ln_low
  by (simp add: mc_step_def propose_scale_def move_sigma_def rand_def new_energy_of_def
      getEnergyGJE_one accept_or_reject_def divide_double_def le_zero_def accept_move_def
      bcast_scale_def
      m_low_def m_ex_def h_ex_def inp_ex_def Let_def)

lemma Metainference_cold:
  "Metainference h_cold ao_ex raw_ex = Inr m_cold"
  by (simp add: ctor_defs h_cold_def h_ex_def ao_ex_def m_ex_def m_cold_def raw_ex_def)

lemma doMonteCarlo_low:
  "doMonteCarlo h_ex inp_ex m_low
     = m_low\<lparr>old_energy := ln (17 / 16 * sqrt2pi), sigma := [1 / 4], MCaccept := 1, rand_pos := 1,
             valueSigma := [1 / 4]\<rparr>"
proof -
  have a: "arguments inp_ex = [0]" by (simp add: inp_ex_def)
  have s: "unat (MCsteps (m_low\<lparr>old_energy := ln (5 / 4 * sqrt2pi)\<rparr>)) = 1"
    by (simp add: m_low_def m_ex_def)
  have f: "fold (mc_step h_ex inp_ex) [0..<1] x = mc_step h_ex inp_ex 0 x" for x
    by (simp add: upt_rec)
  show ?thesis
    unfolding doMonteCarlo_def Let_def a seed_low s f mc_step_low
    by (simp add: m_low_def m_ex_def upt_rec)
qed

subsection \<open>Moves of width 0\<close>








subsection \<open>One argument, one sigma\<close>


subsection \<open>More evaluations at the example objects\<close>

lemma Metainference_ao_mgauss:
  "Metainference h_ex ao_mgauss raw_ex = Inr m_mgauss"
  by (simp add: ctor_defs h_ex_def ao_ex_def ao_mgauss_def m_ex_def m_mgauss_def raw_ex_def
      numeral_2_eq_2)

lemma Metainference_four:
  "Metainference h_four ao_ex raw_ex = Inr m_four"
  by (simp add: ctor_defs h_four_def h_ex_def ao_ex_def m_ex_def m_four_def raw_ex_def)

lemma Metainference_no_steps:
  "Metainference h_ex ao_no_steps raw_ex = Inr m_no_steps"
  by (simp add: ctor_defs h_ex_def ao_ex_def ao_no_steps_def m_ex_def m_no_steps_def raw_ex_def)

subsection \<open>A run resumed between two sampler steps\<close>

lemma Metainference_stride2:
  "Metainference h_ex ao_stride2 raw_ex = Inr m_stride2"
  by (simp add: ctor_defs h_ex_def ao_ex_def ao_stride2_def m_ex_def m_stride2_def raw_ex_def)

lemma calculate_step1:
  "calculate h_ex inp_step1 m_stride2 = Inr m_after1"
proof -
  have nz: "unat (MCstride m_stride2) \<noteq> 0" by (simp add: m_stride2_def m_ex_def)
  have ns: "sampled h_ex inp_step1 m_stride2 = m_stride2"
    by (simp add: sampled_def inp_step1_def inp_ex_def m_stride2_def m_ex_def signed_modulo_int_def)
  have alone: "comm_Get_rank h_ex = 0" "multi_sim_others_inv_s2 inp_step1 = []"
    "comm_others_inv_s2 inp_step1 = []"
    by (simp_all add: h_ex_def inp_step1_def inp_ex_def)
  define m3 where "m3 = m_stride2\<lparr>MCfirst := 1\<rparr>"
  have pub: "accept_published inp_step1 (first_recorded inp_step1 m_stride2) = m3"
    by (simp add: first_recorded_def accept_published_def m3_def m_stride2_def m_ex_def
        inp_step1_def inp_ex_def)
  have args: "arguments inp_step1 = [0]" by (simp add: inp_step1_def inp_ex_def)
  have frc: "forces_of h_ex inp_step1 m3 = getEnergyForceGJE h_ex inp_step1 m3"
    by (simp add: forces_of_def m3_def m_stride2_def m_ex_def)
  have val: "getEnergyForceGJE h_ex inp_step1 m3 = (ln (5 / 4 * sqrt2pi), m3)"
    unfolding getEnergyForceGJE_alone [OF alone] args sum_one_argument
    by (simp add: m3_def m_stride2_def m_ex_def fun_eq_iff)
  show ?thesis
    unfolding calculate_phases ns pub frc val Let_def
    by (simp add: nz) (simp add: m3_def m_after1_def m_stride2_def m_ex_def)
qed

section \<open>The claims\<close>

subsection \<open>C1: the Metropolis test\<close>

text \<open>
  Claim C1, amended. In an inner Monte Carlo step with \<open>kbt_\<close> other than 0, let \<open>Delta\<close>
  be the energy of the proposal minus \<open>old_energy\<close>, divided by \<open>kbt_\<close>, and let \<open>u\<close> be the
  draw that follows the draws of the proposal, divided by \<open>RAND_MAX\<close>. The step is the
  accept-or-reject block followed by the broadcast of the scale. The block accepts
  exactly when \<open>Delta \<le> 0\<close> or \<open>u < exp (- Delta)\<close>: then \<open>old_energy\<close>, the scale and sigma
  become the proposed values and the counter of accepted moves grows by one; otherwise
  all four keep their values. The draw \<open>u\<close> is taken only when \<open>0 < Delta\<close>, it is one
  draw, and it lies in \<open>[0, 1]\<close> when \<open>rand()\<close> stays below \<open>RAND_MAX\<close>. The decision is
  this function of the draws and the two energies. Where the scale is not sampled, or on
  the process that is the root of both broadcasts, the step is the block alone.
\<close>

theorem metropolis_step:
  assumes "kbt m \<noteq> 0"
  shows "let (new_scale, m1) = propose_scale h inp i m;
       (new_sigma, m2) = propose_sigma h (sigma m1) m1;
       new_energy = new_energy_of m2 (arguments inp) new_sigma new_scale;
       Delta = (new_energy - old_energy m) / kbt m;
       u = real (rand_stream m (rand_pos m2)) / real (RAND_MAX h);
       m3 = accept_or_reject h new_energy new_scale new_sigma m2
   in mc_step h inp i m = bcast_scale h inp i m3
    \<and> (Delta \<le> 0 \<or> u < exp (- Delta) \<longrightarrow>
          old_energy m3 = new_energy \<and> scale m3 = new_scale \<and> sigma m3 = new_sigma
          \<and> MCaccept m3 = MCaccept m + 1)
    \<and> (\<not> (Delta \<le> 0 \<or> u < exp (- Delta)) \<longrightarrow>
          old_energy m3 = old_energy m \<and> scale m3 = scale m \<and> sigma m3 = sigma m
          \<and> MCaccept m3 = MCaccept m)
    \<and> rand_pos m3 = (if Delta \<le> 0 then rand_pos m2 else Suc (rand_pos m2))
    \<and> (0 < RAND_MAX h \<and> rand_stream m (rand_pos m2) \<le> RAND_MAX h \<longrightarrow> 0 \<le> u \<and> u \<le> 1)
    \<and> ((doscale m \<longrightarrow> comm_Get_rank h = 0 \<and> multi_sim_comm_Get_rank h = 0)
        \<longrightarrow> mc_step h inp i m = m3)"
proof -
  define m1 where "m1 = snd (propose_scale h inp i m)"
  define m2 where "m2 = snd (propose_sigma h (sigma m1) m1)"
  have keep: "old_energy m2 = old_energy m" "kbt m2 = kbt m" "scale m2 = scale m"
    "sigma m2 = sigma m" "MCaccept m2 = MCaccept m" "rand_stream m2 = rand_stream m"
    "doscale m2 = doscale m"
    by (simp_all add: m2_def m1_def propose_sigma_snd propose_scale_snd)
  have root: "bcast_scale h inp i (accept_or_reject h ne ns nsg m2) = accept_or_reject h ne ns nsg m2"
    if "doscale m \<longrightarrow> comm_Get_rank h = 0 \<and> multi_sim_comm_Get_rank h = 0" for ne ns nsg
    using that by (intro bcast_scale_root) (simp add: accept_or_reject_doscale keep)
  have k2: "kbt m2 \<noteq> 0" using assms by (simp add: keep)
  note f = accept_or_reject_fields [OF k2, where h = h
     and ne = "new_energy_of m2 (arguments inp) (fst (propose_sigma h (sigma m1) m1)) (fst (propose_scale h inp i m))"
     and ns = "fst (propose_scale h inp i m)" and nsg = "fst (propose_sigma h (sigma m1) m1)",
     unfolded keep]
  show ?thesis
    unfolding Let_def split_beta m1_def [symmetric] m2_def [symmetric]
    using f root by (simp add: mc_step_def split_beta Let_def m1_def m2_def)
qed

text \<open>
  Claim C1, amended, at the example object with low draws and \<open>kbt_\<close> 1: the proposal
  lowers sigma from \<open>1/2\<close> to \<open>1/4\<close>, which lowers the energy, so it is accepted
  without a further draw.
\<close>

theorem metropolis_step_witness:
  "kbt m_seeded \<noteq> 0
   \<and> (ln (17 / 16 * sqrt2pi) - old_energy m_seeded) / kbt m_seeded \<le> 0
   \<and> fst (propose_sigma h_ex (sigma m_seeded) m_seeded) = [1 / 4]
   \<and> old_energy (mc_step h_ex inp_ex 0 m_seeded) = ln (17 / 16 * sqrt2pi)
   \<and> scale (mc_step h_ex inp_ex 0 m_seeded) = 1
   \<and> sigma (mc_step h_ex inp_ex 0 m_seeded) = [1 / 4]
   \<and> MCaccept (mc_step h_ex inp_ex 0 m_seeded) = MCaccept m_seeded + 1"
proof -
  have k: "kbt m_seeded \<noteq> 0"
    by (simp add: m_seeded_def m_low_def m_ex_def)
  from metropolis_step [OF k, of h_ex inp_ex 0] ln_low k
  show ?thesis
    by (simp add: propose_scale_def move_sigma_def rand_def new_energy_of_def
        getEnergyGJE_one bcast_scale_def accept_or_reject_doscale
        m_seeded_def m_low_def m_ex_def h_ex_def inp_ex_def Let_def)
qed

text \<open>
  Claim C1 as stated, for every inner step, fails when \<open>kbt_\<close> is 0, which the
  constructor accepts when no temperature is given and the MD code passes none. Both
  energies are then 0 and their difference is 0, which is not above 0; the quotient of
  line 371 is not a number, both tests of lines 373 and 381 are false, and the proposal
  of sigma \<open>3/4\<close> for \<open>1/2\<close> is rejected after one more draw: sigma and the counter keep
  their values and two draws are consumed, one by the proposal and one by the test.
\<close>

theorem metropolis_zero_kbt_counterexample:
  "Metainference h_cold ao_ex raw_ex = Inr m_cold
   \<and> kbt m_cold = 0
   \<and> fst (propose_scale h_cold inp_ex 0 m_cold) = 1
   \<and> fst (propose_sigma h_cold (sigma m_cold) m_cold) = [3 / 4]
   \<and> new_energy_of m_cold (arguments inp_ex) [3 / 4] 1 - old_energy m_cold = 0
   \<and> mc_step h_cold inp_ex 0 m_cold = m_cold\<lparr>rand_pos := 2\<rparr>
   \<and> sigma (mc_step h_cold inp_ex 0 m_cold) = [1 / 2]
   \<and> MCaccept (mc_step h_cold inp_ex 0 m_cold) = MCaccept m_cold
   \<and> rand_pos (mc_step h_cold inp_ex 0 m_cold) = rand_pos m_cold + 2"
  using Metainference_cold
  by (simp add: mc_step_def propose_scale_def move_sigma_def rand_def new_energy_of_def
      getEnergyGJE_one accept_or_reject_def divide_double_def le_zero_def less_exp_minus_def
      bcast_scale_def m_cold_def m_ex_def h_cold_def h_ex_def inp_ex_def Let_def)

subsection \<open>C2: reflection at the bounds\<close>

text \<open>
  Claim C2, amended. Let the current scale and every current sigma lie inside their
  bounds and let the half-width of the step be at least 0 and at most the width
  \<open>max - min\<close> of the interval. Then the value the move of the scale yields and every
  value the move of the sigmas yields lies inside the bounds, and a raw proposal that is
  inside the bounds already is returned as it is.
\<close>

theorem reflection_keeps_bounds:
  assumes "0 < RAND_MAX h" and "\<forall>n. rand_stream m n \<le> RAND_MAX h"
    and "scale_min m \<le> scale m" and "scale m \<le> scale_max m"
    and "0 \<le> Dscale m" and "Dscale m \<le> scale_max m - scale_min m"
    and "\<forall>x\<in>set (sigma m). sigma_min m \<le> x \<and> x \<le> sigma_max m"
    and "0 \<le> Dsigma m" and "Dsigma m \<le> sigma_max m - sigma_min m"
  shows "(scale_min m \<le> fst (move_scale h m) \<and> fst (move_scale h m) \<le> scale_max m)
    \<and> (\<forall>v\<in>set (fst (propose_sigma h (sigma m) m)). sigma_min m \<le> v \<and> v \<le> sigma_max m)
    \<and> (let raw = scale m + (- Dscale m
                 + real (rand_stream m (rand_pos m)) / real (RAND_MAX h) * 2 * Dscale m)
       in scale_min m \<le> raw \<and> raw \<le> scale_max m \<longrightarrow> fst (move_scale h m) = raw)
    \<and> (\<forall>j<length (sigma m).
         let raw = sigma m ! j + (- Dsigma m
                 + real (rand_stream m (rand_pos m + j)) / real (RAND_MAX h) * 2 * Dsigma m)
         in sigma_min m \<le> raw \<and> raw \<le> sigma_max m
            \<longrightarrow> fst (propose_sigma h (sigma m) m) ! j = raw)"
proof (intro conjI)
  show "scale_min m \<le> fst (move_scale h m)" "fst (move_scale h m) \<le> scale_max m"
    using move_scale_bounds [of h m] assms by auto
  show "\<forall>v\<in>set (fst (propose_sigma h (sigma m) m)). sigma_min m \<le> v \<and> v \<le> sigma_max m"
    using assms by (intro propose_sigma_bounds) auto
  show "let raw = scale m + (- Dscale m
                 + real (rand_stream m (rand_pos m)) / real (RAND_MAX h) * 2 * Dscale m)
       in scale_min m \<le> raw \<and> raw \<le> scale_max m \<longrightarrow> fst (move_scale h m) = raw"
    by (simp add: move_scale_eq Let_def)
  show "\<forall>j<length (sigma m).
         let raw = sigma m ! j + (- Dsigma m
                 + real (rand_stream m (rand_pos m + j)) / real (RAND_MAX h) * 2 * Dsigma m)
         in sigma_min m \<le> raw \<and> raw \<le> sigma_max m
            \<longrightarrow> fst (propose_sigma h (sigma m) m) ! j = raw"
    by (simp add: propose_sigma_nth move_sigma_eq Let_def)
qed

text \<open>
  Claim C2, amended, at the example object, whose steps are narrower than its intervals.
\<close>

theorem reflection_keeps_bounds_witness:
  "0 < RAND_MAX h_ex \<and> (\<forall>n. rand_stream m_ex n \<le> RAND_MAX h_ex)
   \<and> scale_min m_ex \<le> scale m_ex \<and> scale m_ex \<le> scale_max m_ex
   \<and> 0 \<le> Dscale m_ex \<and> Dscale m_ex \<le> scale_max m_ex - scale_min m_ex
   \<and> list_all (\<lambda>x. sigma_min m_ex \<le> x \<and> x \<le> sigma_max m_ex) (sigma m_ex)
   \<and> 0 \<le> Dsigma m_ex \<and> Dsigma m_ex \<le> sigma_max m_ex - sigma_min m_ex
   \<and> scale_min m_ex \<le> fst (move_scale h_ex m_ex) \<and> fst (move_scale h_ex m_ex) \<le> scale_max m_ex
   \<and> list_all (\<lambda>v. sigma_min m_ex \<le> v \<and> v \<le> sigma_max m_ex)
        (fst (propose_sigma h_ex (sigma m_ex) m_ex))"
proof -
  have hyps: "0 < RAND_MAX h_ex" "\<forall>n. rand_stream m_ex n \<le> RAND_MAX h_ex"
    "scale_min m_ex \<le> scale m_ex" "scale m_ex \<le> scale_max m_ex"
    "0 \<le> Dscale m_ex" "Dscale m_ex \<le> scale_max m_ex - scale_min m_ex"
    "\<forall>x\<in>set (sigma m_ex). sigma_min m_ex \<le> x \<and> x \<le> sigma_max m_ex"
    "0 \<le> Dsigma m_ex" "Dsigma m_ex \<le> sigma_max m_ex - sigma_min m_ex"
    by (simp_all add: h_ex_def m_ex_def)
  from reflection_keeps_bounds [OF hyps] hyps show ?thesis
    unfolding list_all_iff by blast
qed

text \<open>
  Claim C2 as stated, for any half-width: with the interval \<open>[0, 1]\<close>, the current sigma
  \<open>1/2\<close>, the half-width 10 and the largest draw, the raw proposal is \<open>21/2\<close>, the
  reflection at the maximum gives \<open>-17/2\<close> and the reflection at the minimum \<open>17/2\<close>,
  which is above the maximum.
\<close>

theorem reflection_wide_step_counterexample:
  "sigma_min m_wide \<le> 1 / 2 \<and> 1 / 2 \<le> sigma_max m_wide \<and> 0 \<le> Dsigma m_wide
   \<and> rand_stream m_wide (rand_pos m_wide) \<le> RAND_MAX h_ex \<and> 0 < RAND_MAX h_ex
   \<and> fst (move_sigma h_ex (1 / 2) m_wide) = 17 / 2
   \<and> \<not> fst (move_sigma h_ex (1 / 2) m_wide) \<le> sigma_max m_wide"
  by (simp add: move_sigma_eq m_wide_def m_ex_def h_ex_def Let_def)

subsection \<open>C3: the long-tailed energy\<close>

text \<open>
  Claim C3, amended. With \<open>N_arg\<close> arguments, \<open>getEnergySPE\<close> returns \<open>kbt_\<close> times the
  energy of the specification taken with the constant \<open>sqrt2_div_pi = 0.45015815807855\<close>
  in the place of \<open>sqrt (2 / pi)\<close>, and \<open>getEnergyForceSPE\<close>, with one replica and one
  rank, returns that energy itself, at the current sigma and scale. The term
  \<open>ln s - N_arg ln (sqrt2_div_pi s)\<close> is added once.
\<close>

theorem ltail_energy_of_code:
  assumes "ndata m = length args" and "ndata m = length (arguments inp)"
    and "comm_Get_rank h = 0" and "multi_sim_others_ene inp = []" and "comm_others_ene inp = []"
  shows "getEnergySPE m args sg sc
           = kbt m * ltail_energy sqrt2_div_pi args (parameters m) sg sc (sigma_mean m)
    \<and> fst (getEnergyForceSPE h inp m)
           = ltail_energy sqrt2_div_pi (arguments inp) (parameters m) (sigma m ! 0) (scale m) (sigma_mean m)"
proof
  show "getEnergySPE m args sg sc
           = kbt m * ltail_energy sqrt2_div_pi args (parameters m) sg sc (sigma_mean m)"
    unfolding getEnergySPE_sum ltail_energy_def Let_def
    by (simp add: assms(1) power2_eq_square)
  show "fst (getEnergyForceSPE h inp m)
           = ltail_energy sqrt2_div_pi (arguments inp) (parameters m) (sigma m ! 0) (scale m) (sigma_mean m)"
    unfolding getEnergyForceSPE_alone [OF assms(3,4,5)] ltail_energy_def Let_def
    by (simp add: assms(2) power2_eq_square)
qed

text \<open>
  Claim C3, amended, at one argument 0 with reference 0, sigma 0, scale 1 and
  \<open>sigma_mean\<close> 1.
\<close>

theorem ltail_energy_of_code_witness:
  "ndata m_ltail = length [0 :: real] \<and> ndata m_ltail = length (arguments inp_ex)
   \<and> comm_Get_rank h_ex = 0 \<and> multi_sim_others_ene inp_ex = [] \<and> comm_others_ene inp_ex = []
   \<and> getEnergySPE m_ltail [0] 0 1 = kbt m_ltail * (ln (2 / (1 - exp (- 1))) - ln sqrt2_div_pi)
   \<and> fst (getEnergyForceSPE h_ex inp_ex m_ltail) = ln (2 / (1 - exp (- 1))) - ln sqrt2_div_pi"
proof -
  have a: "ndata m_ltail = length [0 :: real]" "ndata m_ltail = length (arguments inp_ex)"
    "comm_Get_rank h_ex = 0" "multi_sim_others_ene inp_ex = []" "comm_others_ene inp_ex = []"
    by (simp_all add: m_ltail_def m_ex_def inp_ex_def h_ex_def)
  have v: "parameters m_ltail = [0]" "sigma m_ltail ! 0 = 0" "scale m_ltail = 1"
    "sigma_mean m_ltail = 1" "arguments inp_ex = [0]"
    by (simp_all add: m_ltail_def m_ex_def inp_ex_def)
  from ltail_energy_of_code [OF a, of 0 1] a
  show ?thesis by (simp add: v ltail_energy_at_origin)
qed

text \<open>
  Claim C3 as stated fails at that input: with the constant \<open>sqrt (2 / pi)\<close> the energy
  differs from what \<open>getEnergyForceSPE\<close> returns, and from what \<open>getEnergySPE\<close>
  returns when \<open>kbt_\<close> is 2.
\<close>

theorem ltail_energy_counterexample:
  "fst (getEnergyForceSPE h_ex inp_ex m_ltail) \<noteq> ltail_energy (sqrt (2 / pi)) [0] [0] 0 1 1
   \<and> getEnergySPE (m_ltail\<lparr>kbt := 2\<rparr>) [0] 0 1 \<noteq> ltail_energy (sqrt (2 / pi)) [0] [0] 0 1 1"
proof
  have "sqrt2_div_pi < sqrt (2 / pi)"
    using sqrt2_div_pi_small(2) sqrt_2_over_pi_large by linarith
  then have "ln sqrt2_div_pi < ln (sqrt (2 / pi))"
    using sqrt2_div_pi_small(1) by simp
  then show "fst (getEnergyForceSPE h_ex inp_ex m_ltail) \<noteq> ltail_energy (sqrt (2 / pi)) [0] [0] 0 1 1"
    unfolding getEnergyForceSPE_at_origin ltail_energy_at_origin by simp
  have "sqrt2_div_pi\<^sup>2 < sqrt (2 / pi)"
    using sqrt2_div_pi_small(3) sqrt_2_over_pi_large by linarith
  then have "ln (sqrt2_div_pi\<^sup>2) < ln (sqrt (2 / pi))"
    using sqrt2_div_pi_small(1) by simp
  then have "2 * ln sqrt2_div_pi < ln (sqrt (2 / pi))"
    using sqrt2_div_pi_small(1) by (simp add: ln_realpow)
  with ltail_term_positive
  have "2 * (ln (2 / (1 - exp (- 1))) - ln sqrt2_div_pi) \<noteq> ln (2 / (1 - exp (- 1))) - ln (sqrt (2 / pi))"
    by argo
  then show "getEnergySPE (m_ltail\<lparr>kbt := 2\<rparr>) [0] 0 1 \<noteq> ltail_energy (sqrt (2 / pi)) [0] [0] 0 1 1"
    unfolding getEnergySPE_at_origin ltail_energy_at_origin .
qed

subsection \<open>C4: one argument, Gaussian noise, nothing sampled\<close>



subsection \<open>C5: the acceptance published\<close>

text \<open>
  Claim C5. When the stride is not 0, \<open>calculate\<close> succeeds at every step and publishes,
  as the acceptance, the count of accepted moves divided by \<open>MCsteps_\<close> and by the number
  of trials \<open>floor ((step - first_step) / stride) + 1\<close>; \<open>first_step\<close> is the step of the
  first call, recorded while \<open>MCfirst_\<close> is -1 and kept afterwards.
\<close>

theorem acceptance_ratio_published:
  assumes "unat (MCstride m) \<noteq> 0"
  shows "\<exists>m'. calculate h inp m = Inr m'
    \<and> MCfirst m' = (if MCfirst m = - 1 then getStep inp else MCfirst m)
    \<and> MCsteps m' = MCsteps m \<and> MCstride m' = MCstride m
    \<and> valueAccept m' = real (unat (MCaccept m')) / real (unat (MCsteps m'))
         / (real_of_int \<lfloor>real_of_int (getStep inp - MCfirst m') / real (unat (MCstride m'))\<rfloor> + 1)"
proof -
  from calculate_total [OF assms] obtain m' where c: "calculate h inp m = Inr m'" ..
  note s = calculate_Inr(2) [OF c, unfolded same_setup_def]
  have "valueAccept m' = real (unat (MCaccept m')) / real (unat (MCsteps m'))
         / (real_of_int \<lfloor>real_of_int (getStep inp - MCfirst m') / real (unat (MCstride m'))\<rfloor> + 1)"
    using calculate_Inr(3,4,8) [OF c] s by simp
  moreover have "MCsteps m' = MCsteps m" "MCstride m' = MCstride m"
    using calculate_setup(1) [OF c] by (simp_all add: same_setup_def)
  ultimately show ?thesis
    using c calculate_setup(2) [OF c] by blast
qed

text \<open>
  Claim C5 at the example object with low draws: one accepted move in one step of one
  trial, so the acceptance published at step 0 is 1.
\<close>

theorem acceptance_ratio_published_witness:
  "unat (MCstride m_low) \<noteq> 0
   \<and> (\<exists>m'. calculate h_ex inp_ex m_low = Inr m' \<and> MCaccept m' = 1 \<and> MCsteps m' = 1
         \<and> MCfirst m' = 0 \<and> valueAccept m' = 1)"
proof -
  have nz: "unat (MCstride m_low) \<noteq> 0" by (simp add: m_low_def m_ex_def)
  from acceptance_ratio_published [OF nz, of h_ex inp_ex] obtain m' where
    c: "calculate h_ex inp_ex m_low = Inr m'" and
    f: "MCfirst m' = (if MCfirst m_low = - 1 then getStep inp_ex else MCfirst m_low)" and
    s: "MCsteps m' = MCsteps m_low" "MCstride m' = MCstride m_low" and
    v: "valueAccept m' = real (unat (MCaccept m')) / real (unat (MCsteps m'))
         / (real_of_int \<lfloor>real_of_int (getStep inp_ex - MCfirst m') / real (unat (MCstride m'))\<rfloor> + 1)"
    by blast
  have sam: "sampled h_ex inp_ex m_low = doMonteCarlo h_ex inp_ex m_low"
    by (simp add: sampled_def m_low_def m_ex_def inp_ex_def)
  have acc: "MCaccept m' = 1"
    using calculate_Inr(4) [OF c]
    by (simp add: sam doMonteCarlo_low first_recorded_def)
  have f0: "MCfirst m' = 0" using f by (simp add: m_low_def m_ex_def inp_ex_def)
  have s1: "MCsteps m' = 1" "MCstride m' = 1" using s by (simp_all add: m_low_def m_ex_def)
  have "valueAccept m' = 1"
    unfolding v acc f0 s1 by (simp add: inp_ex_def)
  with nz c acc s1 f0 show ?thesis by blast
qed

subsection \<open>C6: the old energy at the first call of the sampler\<close>

text \<open>
  Claim C6 fails on the code when the first step of \<open>calculate\<close> is not a step of
  the sampler. With the object built from \<open>MC_STRIDE=2\<close> and a run resumed at step 1, \<open>calculate\<close> does not
  call the sampler at step 1 and sets \<open>MCfirst_\<close> to 1. At step 2 the sampler is called
  for the first time, \<open>MCfirst_\<close> is no longer -1, and lines 318-328 leave \<open>old_energy\<close>
  at the 0 of the initialiser list, while the energy of the current state is
  \<open>ln (5/4 sqrt2pi) > 0\<close>.
\<close>

theorem first_sampler_call_not_seeded:
  "Metainference h_ex ao_stride2 raw_ex = Inr m_stride2
   \<and> calculate h_ex inp_step1 m_stride2 = Inr m_after1
   \<and> sampled h_ex inp_step1 m_stride2 = m_stride2
   \<and> sampled h_ex inp_step2 m_after1 = doMonteCarlo h_ex inp_step2 m_after1
   \<and> MCfirst m_after1 = 1
   \<and> seed_old_energy (arguments inp_step2) m_after1 = m_after1
   \<and> old_energy m_after1 = 0
   \<and> getEnergyGJE m_after1 (arguments inp_step2) (sigma m_after1) (scale m_after1) = ln (5 / 4 * sqrt2pi)
   \<and> 0 < ln (5 / 4 * sqrt2pi)"
proof -
  have "sampled h_ex inp_step1 m_stride2 = m_stride2"
    by (simp add: sampled_def inp_step1_def inp_ex_def m_stride2_def m_ex_def signed_modulo_int_def)
  moreover have "sampled h_ex inp_step2 m_after1 = doMonteCarlo h_ex inp_step2 m_after1"
    by (simp add: sampled_def inp_step2_def inp_ex_def m_after1_def m_stride2_def m_ex_def
        signed_modulo_int_def)
  moreover have "MCfirst m_after1 = 1" "old_energy m_after1 = 0"
    by (simp_all add: m_after1_def m_stride2_def m_ex_def)
  moreover have "seed_old_energy (arguments inp_step2) m_after1 = m_after1"
    by (simp add: seed_old_energy_def m_after1_def)
  moreover have "getEnergyGJE m_after1 (arguments inp_step2) (sigma m_after1) (scale m_after1)
      = ln (5 / 4 * sqrt2pi)"
    by (simp add: inp_step2_def inp_ex_def m_after1_def m_stride2_def m_ex_def getEnergyGJE_one)
  moreover have "0 < ln (5 / 4 * sqrt2pi)"
    using sqrt2pi_pos(2) by simp
  ultimately show ?thesis
    using calculate_step1 Metainference_stride2 by blast
qed

subsection \<open>C7: sigma_mean\<close>

text \<open>
  Claim C7. After a construction that succeeds (on a replica of at least one rank),
  \<open>nrep_\<close> is the number of replicas and \<open>sigma_mean_\<close> is the value of \<open>SIGMA_MEAN\<close>
  divided by its square root, once: by 1, \<open>sqrt 2\<close> and 2 for 1, 2 and 4 replicas.
  Neither the sampler nor any run of \<open>calculate\<close> changes it.
\<close>

theorem sigma_mean_fixed_at_construction:
  assumes "Metainference h ao raw = Inr m" and "0 < comm_Get_size h"
  shows "nrep m = multi_sim_comm_Get_size h
    \<and> sigma_mean m = SIGMA_MEAN ao / sqrt (real (unat (multi_sim_comm_Get_size h)))
    \<and> (multi_sim_comm_Get_size h = 1 \<longrightarrow> sigma_mean m = SIGMA_MEAN ao)
    \<and> (multi_sim_comm_Get_size h = 2 \<longrightarrow> sigma_mean m = SIGMA_MEAN ao / sqrt 2)
    \<and> (multi_sim_comm_Get_size h = 4 \<longrightarrow> sigma_mean m = SIGMA_MEAN ao / 2)
    \<and> sigma_mean (doMonteCarlo h inp m) = sigma_mean m
    \<and> (\<forall>inps m'. calculate_steps h inps m = Inr m' \<longrightarrow> sigma_mean m' = sigma_mean m)"
proof -
  have n: "nrep m = multi_sim_comm_Get_size h"
    using Metainference_Inr(5) [OF assms(1)] assms(2) by (simp add: comm_Sum_rank0)
  have s: "sigma_mean m = SIGMA_MEAN ao / sqrt (real (unat (multi_sim_comm_Get_size h)))"
    using Metainference_Inr(4) [OF assms(1)] n by simp
  have "sigma_mean (doMonteCarlo h inp m) = sigma_mean m"
    using doMonteCarlo_setup(1) [of m h inp] by (simp add: same_setup_def)
  moreover have "\<forall>inps m'. calculate_steps h inps m = Inr m' \<longrightarrow> sigma_mean m' = sigma_mean m"
    using calculate_steps_setup by (auto simp: same_setup_def)
  moreover have "multi_sim_comm_Get_size h = 4 \<longrightarrow> sigma_mean m = SIGMA_MEAN ao / 2"
    using s by auto
  moreover have "multi_sim_comm_Get_size h = 2 \<longrightarrow> sigma_mean m = SIGMA_MEAN ao / sqrt 2"
    using s by auto
  moreover have "multi_sim_comm_Get_size h = 1 \<longrightarrow> sigma_mean m = SIGMA_MEAN ao"
    using s by auto
  ultimately show ?thesis using n s by blast
qed

text \<open>
  Claim C7 with four replicas and \<open>SIGMA_MEAN=1\<close>: \<open>sigma_mean_\<close> is \<open>1/2\<close>, also after the
  sampler.
\<close>

theorem sigma_mean_fixed_at_construction_witness:
  "Metainference h_four ao_ex raw_ex = Inr m_four \<and> 0 < comm_Get_size h_four
   \<and> multi_sim_comm_Get_size h_four = 4 \<and> SIGMA_MEAN ao_ex = 1
   \<and> sigma_mean m_four = 1 / 2
   \<and> sigma_mean (doMonteCarlo h_four inp_ex m_four) = 1 / 2"
proof -
  have a: "0 < comm_Get_size h_four" "multi_sim_comm_Get_size h_four = 4" "SIGMA_MEAN ao_ex = 1"
    by (simp_all add: h_four_def h_ex_def ao_ex_def)
  from sigma_mean_fixed_at_construction [OF Metainference_four a(1), of inp_ex] a
  have "sigma_mean m_four = 1 / 2" "sigma_mean (doMonteCarlo h_four inp_ex m_four) = 1 / 2"
    by simp_all
  with a Metainference_four show ?thesis by blast
qed

subsection \<open>C8: the length of sigma\<close>

text \<open>
  Claim C8, amended. After a construction that succeeds with at least one argument, the
  length of sigma is 1 or \<open>N_arg\<close>, and it is \<open>N_arg\<close> exactly when the variant is MGAUSS
  or \<open>N_arg\<close> is 1; the variant is MGAUSS exactly when \<open>NOISETYPE\<close> says so.
\<close>

theorem sigma_length_after_construction:
  assumes "Metainference h ao raw = Inr m" and "1 \<le> ARG ao"
  shows "(length (sigma m) = 1 \<or> length (sigma m) = ARG ao)
    \<and> (length (sigma m) = ARG ao \<longleftrightarrow> noise_type m = MGAUSS \<or> ARG ao = 1)
    \<and> (noise_type m = MGAUSS \<longleftrightarrow> NOISETYPE ao = ''MGAUSS'')"
  using Metainference_Inr(1,2,3) [OF assms(1)] assms(2) by (cases "noise_type m = MGAUSS") auto

text \<open>
  Claim C8, amended, at MGAUSS with two arguments and one value of \<open>SIGMA0\<close>.
\<close>

theorem sigma_length_after_construction_witness:
  "Metainference h_ex ao_mgauss raw_ex = Inr m_mgauss \<and> 1 \<le> ARG ao_mgauss
   \<and> length (sigma m_mgauss) = ARG ao_mgauss \<and> noise_type m_mgauss = MGAUSS
   \<and> NOISETYPE ao_mgauss = ''MGAUSS''"
proof -
  have a: "1 \<le> ARG ao_mgauss" by (simp add: ao_mgauss_def)
  have b: "noise_type m_mgauss = MGAUSS" by (simp add: m_mgauss_def)
  from sigma_length_after_construction [OF Metainference_ao_mgauss a] a b Metainference_ao_mgauss
  show ?thesis by blast
qed

text \<open>
  Claim C8 as stated fails with one argument and GAUSS: the length of sigma is 1, which
  is \<open>N_arg\<close>, and the variant is not MGAUSS.
\<close>

theorem sigma_length_single_argument_counterexample:
  "Metainference h_ex ao_ex raw_ex = Inr m_ex \<and> 1 \<le> ARG ao_ex
   \<and> length (sigma m_ex) = ARG ao_ex \<and> noise_type m_ex = GAUSS \<and> NOISETYPE ao_ex = ''GAUSS''
   \<and> \<not> (length (sigma m_ex) = ARG ao_ex \<longleftrightarrow> noise_type m_ex = MGAUSS)"
  using Metainference_ao_ex by (simp add: ao_ex_def m_ex_def)

subsection \<open>C9: the two Gaussian energies\<close>

text \<open>
  Claim C9. With one replica and one rank, and a sigma vector as long as the arguments
  for MGAUSS and not empty otherwise, the energy \<open>getEnergyForceGJE\<close> returns, times
  \<open>kbt_\<close>, is \<open>getEnergyGJE\<close> at the current sigma and scale. (Over the reals: the
  product with the inverse is the quotient.)
\<close>

theorem GJE_energies_agree:
  assumes "comm_Get_rank h = 0"
    and "multi_sim_others_inv_s2 inp = []" and "comm_others_inv_s2 inp = []"
    and "noise_type m = MGAUSS \<Longrightarrow> length (sigma m) = length (arguments inp)"
    and "noise_type m \<noteq> MGAUSS \<Longrightarrow> 0 < length (sigma m)"
  shows "fst (getEnergyForceGJE h inp m) * kbt m = getEnergyGJE m (arguments inp) (sigma m) (scale m)"
proof -
  have sel: "(if noise_type m = MGAUSS then i else 0) < length (sigma m)"
    if "i < length (arguments inp)" for i
    using that assms(4,5) by (cases "noise_type m = MGAUSS") simp_all
  have nth_ss: "map (\<lambda>i. sigma m ! i * sigma m ! i + sigma_mean m * sigma_mean m) [0..<length (sigma m)] ! k
      = sigma m ! k * sigma m ! k + sigma_mean m * sigma_mean m"
    if "k < length (sigma m)" for k
    using that by simp
  have nth_inv: "map (\<lambda>i. 1.0 / map (\<lambda>i. sigma m ! i * sigma m ! i + sigma_mean m * sigma_mean m)
          [0..<length (sigma m)] ! i) [0..<length (sigma m)] ! k
      = 1 / (sigma m ! k * sigma m ! k + sigma_mean m * sigma_mean m)"
    if "k < length (sigma m)" for k
    using that by simp
  have sums: "(\<Sum>i<length (arguments inp).
          0.5 * (scale m * arguments inp ! i - parameters m ! i) * (scale m * arguments inp ! i - parameters m ! i)
            * map (\<lambda>i. 1.0 / map (\<lambda>i. sigma m ! i * sigma m ! i + sigma_mean m * sigma_mean m)
                [0..<length (sigma m)] ! i) [0..<length (sigma m)] ! (if noise_type m = MGAUSS then i else 0)
          + ln (map (\<lambda>i. sigma m ! i * sigma m ! i + sigma_mean m * sigma_mean m) [0..<length (sigma m)]
                ! (if noise_type m = MGAUSS then i else 0) * sqrt2pi))
     = (\<Sum>i<length (arguments inp). 0.5 * (scale m * arguments inp ! i - parameters m ! i) * (scale m * arguments inp ! i - parameters m ! i)
                      / (if noise_type m = MGAUSS then sigma m ! i * sigma m ! i + sigma_mean m * sigma_mean m
                         else sigma m ! 0 * sigma m ! 0 + sigma_mean m * sigma_mean m)
                   + ln ((if noise_type m = MGAUSS then sigma m ! i * sigma m ! i + sigma_mean m * sigma_mean m
                         else sigma m ! 0 * sigma m ! 0 + sigma_mean m * sigma_mean m) * sqrt2pi))"
  proof (rule sum.cong [OF refl])
    fix i assume "i \<in> {..<length (arguments inp)}"
    then have "(if noise_type m = MGAUSS then i else 0) < length (sigma m)"
      using sel by simp
    from nth_ss [OF this] nth_inv [OF this]
    show "0.5 * (scale m * arguments inp ! i - parameters m ! i) * (scale m * arguments inp ! i - parameters m ! i)
            * map (\<lambda>i. 1.0 / map (\<lambda>i. sigma m ! i * sigma m ! i + sigma_mean m * sigma_mean m)
                [0..<length (sigma m)] ! i) [0..<length (sigma m)] ! (if noise_type m = MGAUSS then i else 0)
          + ln (map (\<lambda>i. sigma m ! i * sigma m ! i + sigma_mean m * sigma_mean m) [0..<length (sigma m)]
                ! (if noise_type m = MGAUSS then i else 0) * sqrt2pi)
       = 0.5 * (scale m * arguments inp ! i - parameters m ! i) * (scale m * arguments inp ! i - parameters m ! i)
                      / (if noise_type m = MGAUSS then sigma m ! i * sigma m ! i + sigma_mean m * sigma_mean m
                         else sigma m ! 0 * sigma m ! 0 + sigma_mean m * sigma_mean m)
                   + ln ((if noise_type m = MGAUSS then sigma m ! i * sigma m ! i + sigma_mean m * sigma_mean m
                         else sigma m ! 0 * sigma m ! 0 + sigma_mean m * sigma_mean m) * sqrt2pi)"
      by (cases "noise_type m = MGAUSS") simp_all
  qed
  show ?thesis
    unfolding getEnergyForceGJE_alone [OF assms(1,2,3)] getEnergyGJE_sum fst_conv sums
    by (simp add: mult.commute)
qed

text \<open>
  Claim C9 at MGAUSS with the two arguments 1 and 2.
\<close>

theorem GJE_energies_agree_witness:
  "comm_Get_rank h_ex = 0 \<and> multi_sim_others_inv_s2 inp_ex = [] \<and> comm_others_inv_s2 inp_ex = []
   \<and> noise_type m_mgauss = MGAUSS \<and> length (sigma m_mgauss) = length (arguments (inp_ex\<lparr>arguments := [1, 2]\<rparr>))
   \<and> fst (getEnergyForceGJE h_ex (inp_ex\<lparr>arguments := [1, 2]\<rparr>) m_mgauss) * kbt m_mgauss
       = getEnergyGJE m_mgauss [1, 2] (sigma m_mgauss) (scale m_mgauss)"
proof -
  have a: "comm_Get_rank h_ex = 0" "multi_sim_others_inv_s2 (inp_ex\<lparr>arguments := [1, 2]\<rparr>) = []"
    "comm_others_inv_s2 (inp_ex\<lparr>arguments := [1, 2]\<rparr>) = []"
    "noise_type m_mgauss = MGAUSS"
    "length (sigma m_mgauss) = length (arguments (inp_ex\<lparr>arguments := [1, 2]\<rparr>))"
    by (simp_all add: h_ex_def inp_ex_def m_mgauss_def)
  from GJE_energies_agree [OF a(1,2,3), of m_mgauss] a
  show ?thesis by (simp add: inp_ex_def)
qed

subsection \<open>C10: the divisors of the acceptance\<close>

text \<open>
  Claim C10. When \<open>MCsteps_\<close> and the stride are at least 1 and the step is not before
  the first step recorded, \<open>calculate\<close> succeeds and the three divisors, \<open>MCsteps_\<close>, the
  stride and the number of trials, are positive. When \<open>MCsteps_\<close> is 0, \<open>calculate\<close>
  succeeds as well: nothing stops it before it divides by \<open>MCsteps_\<close>.
\<close>

theorem acceptance_divisors:
  "(1 \<le> unat (MCsteps m) \<and> 1 \<le> unat (MCstride m)
      \<and> (if MCfirst m = - 1 then getStep inp else MCfirst m) \<le> getStep inp
     \<longrightarrow> (\<exists>m'. calculate h inp m = Inr m'
           \<and> 0 < real (unat (MCsteps m')) \<and> 0 < real (unat (MCstride m'))
           \<and> 0 < real_of_int \<lfloor>real_of_int (getStep inp - MCfirst m') / real (unat (MCstride m'))\<rfloor> + 1))
   \<and> (unat (MCsteps m) = 0 \<and> 1 \<le> unat (MCstride m)
     \<longrightarrow> (\<exists>m'. calculate h inp m = Inr m' \<and> real (unat (MCsteps m')) = 0))"
proof (intro conjI impI)
  assume a: "1 \<le> unat (MCsteps m) \<and> 1 \<le> unat (MCstride m)
      \<and> (if MCfirst m = - 1 then getStep inp else MCfirst m) \<le> getStep inp"
  then have nz: "unat (MCstride m) \<noteq> 0" by simp
  from calculate_total [OF nz] obtain m' where c: "calculate h inp m = Inr m'" ..
  have s: "MCsteps m' = MCsteps m" "MCstride m' = MCstride m"
    using calculate_setup(1) [OF c] by (simp_all add: same_setup_def)
  have f: "MCfirst m' \<le> getStep inp"
    using calculate_setup(2) [OF c] a by simp
  have "0 \<le> real_of_int (getStep inp - MCfirst m') / real (unat (MCstride m'))"
    using f by (intro divide_nonneg_nonneg of_nat_0_le_iff) simp
  then have "0 \<le> \<lfloor>real_of_int (getStep inp - MCfirst m') / real (unat (MCstride m'))\<rfloor>"
    by simp
  then have "0 < real_of_int \<lfloor>real_of_int (getStep inp - MCfirst m') / real (unat (MCstride m'))\<rfloor> + 1"
    by linarith
  moreover have "0 < real (unat (MCsteps m'))" "0 < real (unat (MCstride m'))"
    using a s by (simp_all del: of_nat_unat)
  ultimately show "\<exists>m'. calculate h inp m = Inr m'
           \<and> 0 < real (unat (MCsteps m')) \<and> 0 < real (unat (MCstride m'))
           \<and> 0 < real_of_int \<lfloor>real_of_int (getStep inp - MCfirst m') / real (unat (MCstride m'))\<rfloor> + 1"
    using c by blast
next
  assume a: "unat (MCsteps m) = 0 \<and> 1 \<le> unat (MCstride m)"
  then have nz: "unat (MCstride m) \<noteq> 0" by simp
  from calculate_total [OF nz] obtain m' where c: "calculate h inp m = Inr m'" ..
  have "MCsteps m' = MCsteps m"
    using calculate_setup(1) [OF c] by (simp add: same_setup_def)
  with a c show "\<exists>m'. calculate h inp m = Inr m' \<and> real (unat (MCsteps m')) = 0"
    by (auto simp del: of_nat_unat)
qed

text \<open>
  Claim C10 at the example object, and at the object the constructor builds from
  \<open>MC_STEPS=0\<close>, which it accepts.
\<close>

theorem acceptance_divisors_witness:
  "1 \<le> unat (MCsteps m_ex) \<and> 1 \<le> unat (MCstride m_ex)
   \<and> (if MCfirst m_ex = - 1 then getStep inp_ex else MCfirst m_ex) \<le> getStep inp_ex
   \<and> (\<exists>m'. calculate h_ex inp_ex m_ex = Inr m'
           \<and> 0 < real (unat (MCsteps m')) \<and> 0 < real (unat (MCstride m'))
           \<and> 0 < real_of_int \<lfloor>real_of_int (getStep inp_ex - MCfirst m') / real (unat (MCstride m'))\<rfloor> + 1)
   \<and> Metainference h_ex ao_no_steps raw_ex = Inr m_no_steps
   \<and> unat (MCsteps m_no_steps) = 0 \<and> 1 \<le> unat (MCstride m_no_steps)
   \<and> (\<exists>m'. calculate h_ex inp_ex m_no_steps = Inr m' \<and> real (unat (MCsteps m')) = 0)"
proof -
  have a: "1 \<le> unat (MCsteps m_ex) \<and> 1 \<le> unat (MCstride m_ex)
      \<and> (if MCfirst m_ex = - 1 then getStep inp_ex else MCfirst m_ex) \<le> getStep inp_ex"
    by (simp add: m_ex_def inp_ex_def)
  have b: "unat (MCsteps m_no_steps) = 0 \<and> 1 \<le> unat (MCstride m_no_steps)"
    by (simp add: m_no_steps_def m_ex_def)
  from acceptance_divisors [of m_ex inp_ex h_ex] acceptance_divisors [of m_no_steps inp_ex h_ex]
    a b Metainference_no_steps
  show ?thesis by blast
qed

end
